theory Spec2Isabelle
  imports Main "HOL-Library.AList" "HOL-Library.Sublist" "HOL-Library.Monad_Syntax"
begin

section \<open>The options record (src/types/project-config.ts)\<close>

text \<open>
  \<^verbatim>\<open>ProjectAnswers\<close> is the record the prompts hand to the generator. TypeScript's union
  types \<^verbatim>\<open>'sqlite' | 'postgresql'\<close> and \<^verbatim>\<open>'local' | 'ovh'\<close> are erased at run time: the
  generator receives plain strings and compares them with \<^verbatim>\<open>===\<close>, so the two fields are
  strings here as well. The optional field \<^verbatim>\<open>localStoragePath?: string\<close> is an option.
  A string is the list of the bytes of its UTF-8 encoding, which is what
  \<^verbatim>\<open>fs.writeFile\<close> puts on disk.

  The repository holds the generator in three revisions: \<^verbatim>\<open>src/generators/project.ts\<close>,
  whose functions keep their names here, and the two unnamed files \<^verbatim>\<open>part_001\<close> and
  \<^verbatim>\<open>part_002\<close>; the functions of \<^verbatim>\<open>part_001\<close> carry the suffix \<open>_p1\<close> where their
  text differs. A local name that is also a field of a record is primed.
\<close>

record ProjectAnswers =
  projectName :: string
  projectPath :: string
  database :: string
  storage :: string
  localStoragePath :: "string option"
  useRedis :: bool
  includeDocker :: bool
  includeExamples :: bool

type_synonym PackageJsonDependencies = "(string \<times> string) list"

record PackageJsonConfig =
  name :: string
  version :: string
  description :: string
  main :: string
  type :: string
  scripts :: "(string \<times> string) list"
  bin :: "(string \<times> string) list"
  dependencies :: PackageJsonDependencies
  devDependencies :: PackageJsonDependencies

text \<open>
  Modelled from the spec: the prompt collaborator (\<^verbatim>\<open>prompts.ts\<close>) that validates the
  answers is not among the sources. Section 3 of the specification constrains the project
  name to lowercase letters, digits, hyphen and underscore and the two enumerations to their
  two values each. It says nothing of the text of the storage path; the path is the answer
  to a one-line prompt, and a valid record is taken here to hold a path without line feed
  (a line feed in it would add lines of its own to every text that interpolates it).
\<close>

definition single_line :: "string \<Rightarrow> bool" where
  "single_line s = list_all (\<lambda>c. c \<noteq> CHR 10) s"

definition valid_name_char :: "char \<Rightarrow> bool" where
  "valid_name_char c = (c \<in> set ''abcdefghijklmnopqrstuvwxyz0123456789-_'')"

definition valid_answers :: "ProjectAnswers \<Rightarrow> bool" where
  "valid_answers answers =
     (list_all valid_name_char (projectName answers) \<and>
      (database answers = ''sqlite'' \<or> database answers = ''postgresql'') \<and>
      (storage answers = ''local'' \<or> storage answers = ''ovh'') \<and>
      (case localStoragePath answers of None \<Rightarrow> True | Some p \<Rightarrow> single_line p))"

section \<open>Text and objects\<close>

text \<open>
  A template literal that spans several source lines is written as the list of its lines,
  joined by line feeds (\<^verbatim>\<open>lines.join('\n')\<close>); the empty string after the last line
  stands for a final line feed. An element may itself be the concatenation of text and
  interpolated values, which may hold line feeds of their own.
\<close>

fun join_lines :: "string list \<Rightarrow> string" where
  "join_lines [] = []"
| "join_lines [l] = l"
| "join_lines (l # ls) = l @ CHR 10 # join_lines ls"

text \<open>JavaScript's \<^verbatim>\<open>a || b\<close> on an optional string: \<^verbatim>\<open>undefined\<close> and \<^verbatim>\<open>''\<close> are falsy.\<close>

definition or_else :: "string option \<Rightarrow> string \<Rightarrow> string" where
  "or_else v d = (case v of None \<Rightarrow> d | Some s \<Rightarrow> if s = [] then d else s)"

text \<open>
  An object with string keys keeps its properties in insertion order; \<^verbatim>\<open>obj[k] = v\<close>
  replaces the value of an existing key and appends a new one, which is
  \<^const>\<open>AList.update\<close>.
\<close>

section \<open>The file-system collaborator (fs-extra)\<close>

text \<open>
  The generator only calls \<^verbatim>\<open>ensureDir\<close>, \<^verbatim>\<open>writeFile\<close> and \<^verbatim>\<open>writeJson\<close>. The model
  keeps the calls that succeeded, in order; \<^verbatim>\<open>writeJson\<close> serialises inside the library,
  so what is recorded is the object it was given. A call rejects when the collaborator
  refuses the path (\<open>rejects\<close>), and a rejected promise aborts every \<^verbatim>\<open>await\<close> after it.
  \<^verbatim>\<open>path.join\<close> is modelled on segments that need no normalising: it puts
  \<^verbatim>\<open>/\<close> between them. The \<^verbatim>\<open>console.log\<close> calls of the generator are left out.
\<close>

datatype content = Text string | Json PackageJsonConfig

datatype error = IOError string

record filesystem =
  rejects :: "string \<Rightarrow> bool"
  dirs :: "string list"
  files :: "(string \<times> content) list"

definition ensureDir :: "string \<Rightarrow> filesystem \<Rightarrow> error + filesystem" where
  "ensureDir p fs = (if rejects fs p then Inl (IOError p) else Inr (fs\<lparr>dirs := dirs fs @ [p]\<rparr>))"

definition writeFile :: "string \<Rightarrow> string \<Rightarrow> filesystem \<Rightarrow> error + filesystem" where
  "writeFile p c fs =
     (if rejects fs p then Inl (IOError p) else Inr (fs\<lparr>files := files fs @ [(p, Text c)]\<rparr>))"

definition writeJson :: "string \<Rightarrow> PackageJsonConfig \<Rightarrow> filesystem \<Rightarrow> error + filesystem" where
  "writeJson p v fs =
     (if rejects fs p then Inl (IOError p) else Inr (fs\<lparr>files := files fs @ [(p, Json v)]\<rparr>))"

fun path_join :: "string list \<Rightarrow> string" where
  "path_join [] = ''.''"
| "path_join [p] = p"
| "path_join (p # ps) = p @ ''/'' @ path_join ps"

text \<open>A sequence of awaited calls: the first rejection is the result.\<close>

fun await_all :: "(filesystem \<Rightarrow> error + filesystem) list \<Rightarrow> filesystem \<Rightarrow> error + filesystem" where
  "await_all [] fs = Inr fs"
| "await_all (f # gs) fs = (case f fs of Inl e \<Rightarrow> Inl e | Inr fs' \<Rightarrow> await_all gs fs')"

section \<open>src/generators/project.ts\<close>

subsection \<open>generatePackageJson\<close>

definition packageJson :: "ProjectAnswers \<Rightarrow> PackageJsonConfig" where
  "packageJson answers =
    (let dependencies' =
           [(''digitaltwin-core'', ''^0.1.0''),
            (''knex'', ''^3.0.0''),
            (''commander'', ''^12.0.0'')];
         devDependencies' =
           [(''@types/node'', ''^24.0.10''),
            (''typescript'', ''^5.0.0''),
            (''ts-node-dev'', ''^2.0.0'')];
         (dependencies', devDependencies') =
           (if database answers = ''postgresql''
            then (AList.update ''pg'' ''^8.11.0'' dependencies',
                  AList.update ''@types/pg'' ''^8.10.0'' devDependencies')
            else (AList.update ''sqlite3'' ''^5.1.7'' dependencies', devDependencies'));
         dependencies' =
           (if useRedis answers then AList.update ''ioredis'' ''^5.6.1'' dependencies'
            else dependencies');
         dependencies' =
           (if storage answers = ''ovh''
            then AList.update ''@aws-sdk/client-s3'' ''^3.842.0'' dependencies'
            else dependencies')
     in \<lparr>name = projectName answers,
         version = ''1.0.0'',
         description = ''Digital Twin application built with digitaltwin-core'',
         main = ''dist/index.js'',
         type = ''module'',
         scripts =
           [(''build'', ''tsc''),
            (''dev'', ''ts-node-dev src/index.ts''),
            (''start'', ''node dist/index.js''),
            (''dt:test'', ''ts-node --esm src/dt-cli.ts test''),
            (''dt:dev'', ''ts-node --esm src/dt-cli.ts dev'')],
         bin = [(''dt'', ''./dist/dt-cli.js'')],
         dependencies = dependencies',
         devDependencies = devDependencies'\<rparr>)"

definition generatePackageJson :: "string \<Rightarrow> ProjectAnswers \<Rightarrow> filesystem \<Rightarrow> error + filesystem" where
  "generatePackageJson projectPath' answers =
     writeJson (path_join [projectPath', ''package.json'']) (packageJson answers)"

subsection \<open>generateIndexFile\<close>

definition generateIndexFile :: "ProjectAnswers \<Rightarrow> string" where
  \<open>generateIndexFile answers =
    (let storageClass = (if storage answers = ''local'' then ''LocalStorageService'' else ''OvhS3StorageService'');
         exampleImports = (if includeExamples answers
           then ''import { RandomDataCollector, DataProcessor } from './components/index.js'' @ [CHR 0x27]
           else '''');
         dbConfigSection = (if database answers = ''postgresql''
           then join_lines
              ['''',
               ''    // PostgreSQL configuration'',
               ''    DB_HOST: Env.schema.string(),'',
               ''    DB_PORT: Env.schema.number({ optional: true }),'',
               ''    DB_USER: Env.schema.string(),'',
               ''    DB_PASSWORD: Env.schema.string(),'',
               ''    DB_NAME: Env.schema.string(),'']
           else join_lines
              ['''',
               ''    // SQLite configuration'',
               ''    DB_PATH: Env.schema.string({ optional: true }),'']);
         storageConfigSection = (if storage answers = ''local''
           then join_lines
              ['''',
               ''    // Local storage configuration'',
               ''    STORAGE_PATH: Env.schema.string({ optional: true }),'']
           else join_lines
              ['''',
               ''    // OVH Object Storage configuration'',
               ''    OVH_ACCESS_KEY: Env.schema.string(),'',
               ''    OVH_SECRET_KEY: Env.schema.string(),'',
               ''    OVH_ENDPOINT: Env.schema.string({ format: 'url' }),'',
               ''    OVH_REGION: Env.schema.string({ optional: true }),'',
               ''    OVH_BUCKET: Env.schema.string(),'']);
         redisConfigSection = (if useRedis answers
           then join_lines
              ['''',
               ''    // Redis configuration  '',
               ''    REDIS_HOST: Env.schema.string({ optional: true }),'',
               ''    REDIS_PORT: Env.schema.number({ optional: true }),'']
           else '''');
         storageInit = (if storage answers = ''local''
           then join_lines
              [''env.STORAGE_PATH || '' @ [CHR 0x27] @ or_else (localStoragePath answers) ''./uploads'' @ [CHR 0x27]]
           else join_lines
              [''{'',
               ''    accessKey: env.OVH_ACCESS_KEY,'',
               ''    secretKey: env.OVH_SECRET_KEY,'',
               ''    endpoint: env.OVH_ENDPOINT,'',
               ''    region: env.OVH_REGION || 'gra','',
               ''    bucket: env.OVH_BUCKET'',
               ''  }'']);
         dbConfig = (if database answers = ''postgresql''
           then join_lines
              [''{'',
               ''    client: 'pg','',
               ''    connection: {'',
               ''      host: env.DB_HOST,'',
               ''      port: env.DB_PORT || 5432,'',
               ''      user: env.DB_USER,'',
               ''      password: env.DB_PASSWORD,'',
               ''      database: env.DB_NAME'',
               ''    }'',
               ''  }'']
           else join_lines
              [''{'',
               ''    client: 'sqlite3','',
               ''    connection: {'',
               ''      filename: env.DB_PATH || './data/'' @ projectName answers @ ''.db'' @ [CHR 0x27],
               ''    },'',
               ''    useNullAsDefault: true'',
               ''  }'']);
         exampleComponents = (if includeExamples answers
           then join_lines
              [''collectors: [new RandomDataCollector()],'',
               ''    handlers: [new DataProcessor()],'']
           else '''');
         storageDisplay = (if storage answers = ''local''
           then join_lines
              [''Local filesystem (${env.STORAGE_PATH || '' @ [CHR 0x27] @ or_else (localStoragePath answers) ''./uploads'' @ [CHR 0x27] @ ''})'']
           else ''OVH Object Storage'');
         queueDisplay = (if useRedis answers then ''Redis enabled'' else ''In-memory mode'');
         dbDisplay = (if database answers = ''postgresql'' then ''PostgreSQL'' else ''SQLite'')
     in join_lines
        [''import { DigitalTwinEngine, KnexDatabaseAdapter, Env } from 'digitaltwin-core'' @ [CHR 0x27],
         ''import { '' @ storageClass @ '' } from 'digitaltwin-core'' @ [CHR 0x27],
         exampleImports,
         '''',
         ''async function main(): Promise<void> {'',
         ''  console.log('' @ [CHR 0x27, CHR 0xF0, CHR 0x9F, CHR 0x94, CHR 0xB7] @ '' Starting '' @ projectName answers @ '' Digital Twin...')'',
         ''  '',
         ''  // Validate environment variables'',
         ''  const env = Env.validate({'',
         ''    PORT: Env.schema.number({ optional: true }),'' @ dbConfigSection @ storageConfigSection @ redisConfigSection,
         ''  })'',
         ''  '',
         ''  console.log('' @ [CHR 0x27, CHR 0xE2, CHR 0x9C, CHR 0x85] @ '' Environment variables validated')'',
         ''  '',
         ''  // Initialize storage service first'',
         ''  const storage = new '' @ storageClass @ ''('' @ storageInit @ '')'',
         ''  '',
         ''  // Database configuration'',
         ''  const dbConfig = '' @ dbConfig,
         ''  '',
         ''  // Initialize database adapter'',
         ''  const database = new KnexDatabaseAdapter(dbConfig, storage)'',
         ''  '',
         ''  // Create Digital Twin Engine'',
         ''  const engine = new DigitalTwinEngine({'',
         ''    database,'',
         ''    storage,'',
         ''    '' @ exampleComponents,
         ''  })'',
         ''  '',
         ''  console.log('' @ [CHR 0x27, CHR 0xF0, CHR 0x9F, CHR 0x94, CHR 0xA7] @ '' Digital Twin Engine configured')'',
         ''  '',
         ''  // Start the engine'',
         ''  await engine.start()'',
         ''  const port = engine.getPort() || env.PORT || 3000'',
         ''  console.log(`'' @ [CHR 0xF0, CHR 0x9F, CHR 0x9A, CHR 0x80] @ '' Digital Twin Engine started on port ${port}`)'',
         ''  console.log(`'' @ [CHR 0xF0, CHR 0x9F, CHR 0x93, CHR 0x8A] @ '' Database: '' @ dbDisplay @ ''`)'',
         ''  console.log(`'' @ [CHR 0xF0, CHR 0x9F, CHR 0x92, CHR 0xBE] @ '' Storage: '' @ storageDisplay @ ''`)'',
         ''  console.log(`'' @ [CHR 0xF0, CHR 0x9F, CHR 0x94, CHR 0x84] @ '' Queue: '' @ queueDisplay @ ''`)'',
         ''  '',
         ''  // Graceful shutdown'',
         ''  process.on('SIGINT', async () => {'',
         ''    console.log('' @ [CHR 0x27, CHR 0x5C] @ ''n'' @ [CHR 0xF0, CHR 0x9F, CHR 0x9B, CHR 0x91] @ '' Shutting down gracefully...')'',
         ''    await engine.stop()'',
         ''    process.exit(0)'',
         ''  })'',
         ''}'',
         '''',
         ''main().catch((error: Error) => {'',
         ''  console.error('' @ [CHR 0x27, CHR 0xE2, CHR 0x9D, CHR 0x8C] @ '' Failed to start Digital Twin Engine:', error.message)'',
         ''  process.exit(1)'',
         ''})'',
         ''''])\<close>

subsection \<open>generateCliFile\<close>

definition generateCliFile :: "ProjectAnswers \<Rightarrow> string" where
  \<open>generateCliFile answers =
    (let storageClass = (if storage answers = ''local'' then ''LocalStorageService'' else ''OvhS3StorageService'');
         dbInterface = (if database answers = ''postgresql'' then ''PostgreSQLConfig'' else ''SQLiteConfig'');
         storageInit = (if storage answers = ''local''
           then join_lines
              [''process.env.STORAGE_PATH || '' @ [CHR 0x27] @ or_else (localStoragePath answers) ''./uploads'' @ [CHR 0x27]]
           else join_lines
              [''{'',
               ''    accessKey: process.env.OVH_ACCESS_KEY || '' @ [CHR 0x27, CHR 0x27] @ '','',
               ''    secretKey: process.env.OVH_SECRET_KEY || '' @ [CHR 0x27, CHR 0x27] @ '','',
               ''    endpoint: process.env.OVH_ENDPOINT || '' @ [CHR 0x27, CHR 0x27] @ '','',
               ''    region: process.env.OVH_REGION || 'gra','',
               ''    bucket: process.env.OVH_BUCKET || '' @ [CHR 0x27] @ projectName answers @ ''-storage'' @ [CHR 0x27],
               ''  }'']);
         dbConfig = (if database answers = ''postgresql''
           then join_lines
              [''{'',
               ''    client: 'pg','',
               ''    connection: {'',
               ''      host: process.env.DB_HOST || 'localhost','',
               ''      port: parseInt(process.env.DB_PORT || '5432'),'',
               ''      user: process.env.DB_USER || 'postgres','',
               ''      password: process.env.DB_PASSWORD || 'password','',
               ''      database: process.env.DB_NAME || '' @ [CHR 0x27] @ projectName answers @ [CHR 0x27],
               ''    }'',
               ''  }'']
           else join_lines
              [''{'',
               ''    client: 'sqlite3','',
               ''    connection: {'',
               ''      filename: process.env.DB_PATH || './data/'' @ projectName answers @ ''.db'' @ [CHR 0x27],
               ''    },'',
               ''    useNullAsDefault: true'',
               ''  }''])
     in join_lines
        [''#!/usr/bin/env node'',
         '''',
         ''import { DigitalTwinEngine, KnexDatabaseAdapter } from 'digitaltwin-core'' @ [CHR 0x27],
         ''import { '' @ storageClass @ '' } from 'digitaltwin-core'' @ [CHR 0x27],
         ''import { program } from 'commander'' @ [CHR 0x27],
         ''import { fileURLToPath } from 'url'' @ [CHR 0x27],
         ''import path from 'path'' @ [CHR 0x27],
         ''import fs from 'fs'' @ [CHR 0x27],
         '''',
         ''const __filename = fileURLToPath(import.meta.url)'',
         ''const __dirname = path.dirname(__filename)'',
         '''',
         ''// Load environment variables'',
         ''const envPath = path.join(__dirname, '../.env')'',
         ''if (fs.existsSync(envPath)) {'',
         ''  const envContent = fs.readFileSync(envPath, 'utf8')'',
         ''  envContent.split('' @ [CHR 0x27, CHR 0x5C] @ ''n').forEach(line => {'',
         ''    const [key, value] = line.split('=')'',
         ''    if (key && value) {'',
         ''      process.env[key.trim()] = value.trim()'',
         ''    }'',
         ''  })'',
         ''}'',
         '''',
         ''async function createEngine(): Promise<DigitalTwinEngine> {'',
         ''  // Initialize storage service first'',
         ''  const storage = new '' @ storageClass @ ''('' @ storageInit @ '')'',
         ''  '',
         ''  // Database configuration'',
         ''  const dbConfig = '' @ dbConfig,
         ''  '',
         ''  // Initialize database adapter'',
         ''  const database = new KnexDatabaseAdapter(dbConfig, storage)'',
         ''  '',
         ''  // Create Digital Twin Engine'',
         ''  const engine = new DigitalTwinEngine({'',
         ''    database,'',
         ''    storage'',
         ''  })'',
         ''  '',
         ''  return engine'',
         ''}'',
         '''',
         ''program'',
         ''  .version('1.0.0')'',
         ''  .description('Digital Twin CLI commands')'',
         '''',
         ''program'',
         ''  .command('test')'',
         ''  .description('Run dry-run validation')'',
         ''  .action(async () => {'',
         ''    console.log('' @ [CHR 0x27, CHR 0xF0, CHR 0x9F, CHR 0xA7, CHR 0xAA] @ '' Running dry-run validation...')'',
         ''    '',
         ''    try {'',
         ''      const engine = await createEngine()'',
         ''      '',
         ''      // Run validation'',
         ''      const result = await engine.validateConfiguration()'',
         ''      '',
         ''      if (result.valid) {'',
         ''        console.log('' @ [CHR 0x27, CHR 0xE2, CHR 0x9C, CHR 0x85] @ '' Dry-run validation completed successfully')'',
         ''        console.log(`'' @ [CHR 0xF0, CHR 0x9F, CHR 0x93, CHR 0x8A] @ '' Components: ${result.summary.valid}/${result.summary.total} valid`)'',
         ''      } else {'',
         ''        console.log('' @ [CHR 0x27, CHR 0xE2, CHR 0x9D, CHR 0x8C] @ '' Validation failed')'',
         ''        result.components.forEach(comp => {'',
         ''          if (!comp.valid) {'',
         ''            console.log(`  '' @ [CHR 0xE2, CHR 0x80, CHR 0xA2] @ '' ${comp.name} (${comp.type}): ${comp.errors.join(', ')}`)'',
         ''          }'',
         ''        })'',
         ''        process.exit(1)'',
         ''      }'',
         ''    } catch (error: any) {'',
         ''      console.error('' @ [CHR 0x27, CHR 0xE2, CHR 0x9D, CHR 0x8C] @ '' Validation failed:', error.message)'',
         ''      process.exit(1)'',
         ''    }'',
         ''  })'',
         '''',
         ''program'',
         ''  .command('dev')'',
         ''  .description('Start development server')'',
         ''  .action(async () => {'',
         ''    console.log('' @ [CHR 0x27, CHR 0xF0, CHR 0x9F, CHR 0x94, CHR 0xA5] @ '' Starting development server...')'',
         ''    '',
         ''    try {'',
         ''      const engine = await createEngine()'',
         ''      '',
         ''      // Start the engine'',
         ''      await engine.start()'',
         ''      const port = engine.getPort()'',
         ''      console.log(`'' @ [CHR 0xF0, CHR 0x9F, CHR 0x9A, CHR 0x80] @ '' Digital Twin Engine started on port ${port || '3000'}`)'',
         ''      '',
         ''      // Handle graceful shutdown'',
         ''      process.on('SIGINT', async () => {'',
         ''        console.log('' @ [CHR 0x27, CHR 0x5C] @ ''n'' @ [CHR 0xF0, CHR 0x9F, CHR 0x9B, CHR 0x91] @ '' Shutting down gracefully...')'',
         ''        await engine.stop()'',
         ''        process.exit(0)'',
         ''      })'',
         ''      '',
         ''    } catch (error: any) {'',
         ''      console.error('' @ [CHR 0x27, CHR 0xE2, CHR 0x9D, CHR 0x8C] @ '' Failed to start server:', error.message)'',
         ''      process.exit(1)'',
         ''    }'',
         ''  })'',
         '''',
         ''program.parse()'',
         ''''])\<close>

subsection \<open>generateTsConfig\<close>

text \<open>
  The function returns \<^verbatim>\<open>JSON.stringify(config, null, 2)\<close> for a constant object: the
  text below is that serialisation, one property per line, in the order of the object
  literal, with no line feed after the closing brace.
\<close>

definition generateTsConfig :: string where
  \<open>generateTsConfig = join_lines
    [''{'',
     ''  "compilerOptions": {'',
     ''    "target": "ES2022",'',
     ''    "module": "ESNext",'',
     ''    "moduleResolution": "node",'',
     ''    "allowSyntheticDefaultImports": true,'',
     ''    "esModuleInterop": true,'',
     ''    "allowJs": true,'',
     ''    "outDir": "./dist",'',
     ''    "rootDir": "./src",'',
     ''    "strict": true,'',
     ''    "declaration": true,'',
     ''    "skipLibCheck": true,'',
     ''    "forceConsistentCasingInFileNames": true'',
     ''  },'',
     ''  "include": ['',
     ''    "src/**/*"'',
     ''  ],'',
     ''  "exclude": ['',
     ''    "node_modules",'',
     ''    "dist"'',
     ''  ]'',
     ''}'']\<close>

subsection \<open>generateAppFiles\<close>

definition generateAppFiles :: "string \<Rightarrow> ProjectAnswers \<Rightarrow> filesystem \<Rightarrow> error + filesystem" where
  "generateAppFiles projectPath' answers =
    (let srcDir = path_join [projectPath', ''src''];
         indexContent = generateIndexFile answers;
         cliContent = generateCliFile answers;
         tsconfigContent = generateTsConfig
     in await_all
          [ensureDir srcDir,
           writeFile (path_join [srcDir, ''index.ts'']) indexContent,
           writeFile (path_join [srcDir, ''dt-cli.ts'']) cliContent,
           writeFile (path_join [projectPath', ''tsconfig.json'']) tsconfigContent])"

subsection \<open>generateEnvFile and generateConfigFiles\<close>

definition generateEnvFile :: "ProjectAnswers \<Rightarrow> string" where
  \<open>generateEnvFile answers =
    (let envContent = join_lines
          [''# '' @ projectName answers @ '' Digital Twin Configuration'',
           ''# This file contains environment variables for your Digital Twin application'',
           ''# Copy this to .env and update the values as needed'',
           '''',
           ''# Application Configuration'',
           ''PORT=3000'',
           '''',
           ''# Database Configuration'',
           ''''];
         envContent = envContent @
           (if database answers = ''postgresql''
            then join_lines
              [''# PostgreSQL Database (Required for production)'',
               ''DB_HOST=localhost'',
               ''DB_PORT=5432'',
               ''DB_USER=postgres'',
               ''DB_PASSWORD=password'',
               ''DB_NAME='' @ projectName answers,
               '''']
            else join_lines
              [''# SQLite Database (Good for development)'',
               ''DB_PATH=./data/'' @ projectName answers @ ''.db'',
               '''']);
         envContent = envContent @ join_lines
          ['''',
           ''# Storage Configuration'',
           ''''];
         envContent = envContent @
           (if storage answers = ''local''
            then join_lines
              [''# Local File Storage'',
               ''STORAGE_PATH='' @ or_else (localStoragePath answers) ''./uploads'',
               '''']
            else join_lines
              [''# OVH Object Storage (S3-compatible)'',
               ''OVH_ACCESS_KEY=your_ovh_access_key_here'',
               ''OVH_SECRET_KEY=your_ovh_secret_key_here'',
               ''OVH_ENDPOINT=https://s3.gra.io.cloud.ovh.net'',
               ''OVH_REGION=gra'',
               ''OVH_BUCKET='' @ projectName answers @ ''-storage'',
               '''']);
         envContent = (if useRedis answers
            then envContent @ join_lines
              ['''',
               ''# Redis Configuration (Queue Management)'',
               ''REDIS_HOST=localhost'',
               ''REDIS_PORT=6379'',
               '''']
            else envContent);
         envContent = envContent @ join_lines
          ['''',
           ''# Development Configuration'',
           ''NODE_ENV=development'',
           '''',
           ''# Logging'',
           ''LOG_LEVEL=info'',
           '''']
     in envContent)\<close>

definition gitignoreContent :: string where
  \<open>gitignoreContent = join_lines
    [''node_modules/'',
     ''dist/'',
     ''.env'',
     ''*.log'',
     ''uploads/'',
     ''data/'',
     ''.DS_Store'',
     '''']\<close>

definition generateConfigFiles :: "string \<Rightarrow> ProjectAnswers \<Rightarrow> filesystem \<Rightarrow> error + filesystem" where
  "generateConfigFiles projectPath' answers =
    (let envContent = generateEnvFile answers
     in await_all
          [writeFile (path_join [projectPath', ''.env'']) envContent,
           writeFile (path_join [projectPath', ''.gitignore'']) gitignoreContent])"

subsection \<open>generateExampleComponents\<close>

definition collectorContent :: string where
  \<open>collectorContent = join_lines
    [''import { Collector } from 'digitaltwin-core'' @ [CHR 0x27],
     '''',
     ''interface SensorData {'',
     ''  timestamp: Date'',
     ''  sensorId: string'',
     ''  sensorType: string'',
     ''  location: string'',
     ''  value: number'',
     ''  unit: string'',
     ''  quality: 'good' | 'warning'' @ [CHR 0x27],
     ''  metadata: {'',
     ''    deviceId: string'',
     ''    batteryLevel: number'',
     ''    signalStrength: number'',
     ''  }'',
     ''}'',
     '''',
     ''/**'',
     '' * Random Data Collector - Generates realistic IoT sensor data'',
     '' * Simulates temperature, humidity, and pressure sensors'',
     '' */'',
     ''export class RandomDataCollector extends Collector {'',
     ''  private sensorTypes: string[] = ['temperature', 'humidity', 'pressure', 'vibration', 'light']'',
     ''  private locations: string[] = ['room-a', 'room-b', 'warehouse', 'server-room', 'outdoor']'',
     ''  '',
     ''  getName(): string {'',
     ''    return 'random-data-collector'' @ [CHR 0x27],
     ''  }'',
     ''  '',
     ''  getDescription(): string {'',
     ''    return 'Collects random IoT sensor data for testing and development'' @ [CHR 0x27],
     ''  }'',
     ''  '',
     ''  async collect(): Promise<Buffer> {'',
     ''    const dataPoints: SensorData[] = []'',
     ''    const numSensors = Math.floor(Math.random() * 5) + 3 // 3-7 sensors'',
     ''    '',
     ''    for (let i = 0; i < numSensors; i++) {'',
     ''      const sensorType = this.sensorTypes[Math.floor(Math.random() * this.sensorTypes.length)]'',
     ''      const location = this.locations[Math.floor(Math.random() * this.locations.length)]'',
     ''      '',
     ''      let value: number, unit: string'',
     ''      switch (sensorType) {'',
     ''        case 'temperature':'',
     ''          value = Math.round((Math.random() * 40 + 15) * 10) / 10 // 15-55'' @ [CHR 0xC2, CHR 0xB0] @ ''C'',
     ''          unit = 'celsius'' @ [CHR 0x27],
     ''          break'',
     ''        case 'humidity':'',
     ''          value = Math.round(Math.random() * 80 + 20) // 20-100%'',
     ''          unit = 'percent'' @ [CHR 0x27],
     ''          break'',
     ''        case 'pressure':'',
     ''          value = Math.round((Math.random() * 200 + 950) * 10) / 10 // 950-1150 hPa'',
     ''          unit = 'hPa'' @ [CHR 0x27],
     ''          break'',
     ''        case 'vibration':'',
     ''          value = Math.round(Math.random() * 10 * 100) / 100 // 0-10 m/s'' @ [CHR 0xC2, CHR 0xB2],
     ''          unit = 'm/s'' @ [CHR 0xC2, CHR 0xB2, CHR 0x27],
     ''          break'',
     ''        case 'light':'',
     ''          value = Math.round(Math.random() * 1000) // 0-1000 lux'',
     ''          unit = 'lux'' @ [CHR 0x27],
     ''          break'',
     ''        default:'',
     ''          value = Math.random() * 100'',
     ''          unit = 'generic'' @ [CHR 0x27],
     ''      }'',
     ''      '',
     ''      dataPoints.push({'',
     ''        timestamp: new Date(),'',
     ''        sensorId: `${sensorType}-${location}-${String(i + 1).padStart(2, '0')}`,'',
     ''        sensorType,'',
     ''        location,'',
     ''        value,'',
     ''        unit,'',
     ''        quality: Math.random() > 0.9 ? 'warning' : 'good', // 10% chance of warning'',
     ''        metadata: {'',
     ''          deviceId: `device-${Math.floor(Math.random() * 100)}`,'',
     ''          batteryLevel: Math.round(Math.random() * 100),'',
     ''          signalStrength: Math.round(Math.random() * 100)'',
     ''        }'',
     ''      })'',
     ''    }'',
     ''    '',
     ''    console.log(`'' @ [CHR 0xF0, CHR 0x9F, CHR 0x93, CHR 0x8A] @ '' Collected ${dataPoints.length} data points from random sensors`)'',
     ''    return Buffer.from(JSON.stringify(dataPoints, null, 2))'',
     ''  }'',
     ''  '',
     ''  getSchedule(): string {'',
     ''    return '*/15 * * * * *' // Every 15 seconds'',
     ''  }'',
     ''}'',
     '''']\<close>

definition handlerContent :: string where
  \<open>handlerContent = join_lines
    [''import { Handler } from 'digitaltwin-core'' @ [CHR 0x27],
     '''',
     ''interface SensorData {'',
     ''  sensorId: string'',
     ''  sensorType: string'',
     ''  value: number'',
     ''  quality: 'good' | 'warning'' @ [CHR 0x27],
     ''  metadata?: {'',
     ''    batteryLevel?: number'',
     ''    signalStrength?: number'',
     ''  }'',
     ''}'',
     '''',
     ''interface ProcessedData extends SensorData {'',
     ''  processedAt: Date'',
     ''  processed: boolean'',
     ''  analysis: {'',
     ''    trend: string'',
     ''    category: string'',
     ''    reliability: string'',
     ''    [key: string]: any'',
     ''  }'',
     ''  alerts: string[]'',
     ''}'',
     '''',
     ''/**'',
     '' * Data Processor - Processes and enriches collected sensor data'',
     '' * Adds analysis, alerts, and data quality checks'',
     '' */'',
     ''export class DataProcessor extends Handler {'',
     ''  getName(): string {'',
     ''    return 'data-processor'' @ [CHR 0x27],
     ''  }'',
     ''  '',
     ''  getDescription(): string {'',
     ''    return 'Processes sensor data with analysis and alerting'' @ [CHR 0x27],
     ''  }'',
     ''  '',
     ''  async handle(data: SensorData): Promise<ProcessedData> {'',
     ''    console.log(`'' @ [CHR 0xF0, CHR 0x9F, CHR 0x94, CHR 0x84] @ '' Processing data from sensor: ${data.sensorId}`)'',
     ''    '',
     ''    // Add processing metadata'',
     ''    const processedData: ProcessedData = {'',
     ''      ...data,'',
     ''      processedAt: new Date(),'',
     ''      processed: true,'',
     ''      analysis: this.analyzeData(data),'',
     ''      alerts: this.checkAlerts(data)'',
     ''    }'',
     ''    '',
     ''    // Log alerts if any'',
     ''    if (processedData.alerts.length > 0) {'',
     ''      console.log(`'' @ [CHR 0xE2, CHR 0x9A, CHR 0xA0, CHR 0xEF, CHR 0xB8, CHR 0x8F] @ ''  Alerts for ${data.sensorId}:`, processedData.alerts)'',
     ''    }'',
     ''    '',
     ''    return processedData'',
     ''  }'',
     ''  '',
     ''  private analyzeData(data: SensorData): any {'',
     ''    const analysis: any = {'',
     ''      trend: this.calculateTrend(data.value),'',
     ''      category: this.categorizeValue(data.sensorType, data.value),'',
     ''      reliability: (data.metadata?.batteryLevel ?? 0) > 20 ? 'high' : 'low'' @ [CHR 0x27],
     ''    }'',
     ''    '',
     ''    // Add sensor-specific analysis'',
     ''    switch (data.sensorType) {'',
     ''      case 'temperature':'',
     ''        analysis.heatIndex = data.value > 30 ? 'high' : data.value < 10 ? 'low' : 'normal'' @ [CHR 0x27],
     ''        break'',
     ''      case 'humidity':'',
     ''        analysis.comfortLevel = data.value > 60 ? 'humid' : data.value < 30 ? 'dry' : 'comfortable'' @ [CHR 0x27],
     ''        break'',
     ''      case 'pressure':'',
     ''        analysis.weatherTrend = data.value > 1020 ? 'rising' : data.value < 980 ? 'falling' : 'stable'' @ [CHR 0x27],
     ''        break'',
     ''    }'',
     ''    '',
     ''    return analysis'',
     ''  }'',
     ''  '',
     ''  private checkAlerts(data: SensorData): string[] {'',
     ''    const alerts: string[] = []'',
     ''    '',
     ''    // Quality-based alerts'',
     ''    if (data.quality === 'warning') {'',
     ''      alerts.push('Data quality warning detected')'',
     ''    }'',
     ''    '',
     ''    // Battery alerts'',
     ''    if ((data.metadata?.batteryLevel ?? 0) < 20) {'',
     ''      alerts.push('Low battery level')'',
     ''    }'',
     ''    '',
     ''    // Sensor-specific alerts'',
     ''    switch (data.sensorType) {'',
     ''      case 'temperature':'',
     ''        if (data.value > 50) alerts.push('High temperature alert')'',
     ''        if (data.value < 0) alerts.push('Freezing temperature alert')'',
     ''        break'',
     ''      case 'humidity':'',
     ''        if (data.value > 80) alerts.push('High humidity alert')'',
     ''        break'',
     ''      case 'pressure':'',
     ''        if (data.value < 960) alerts.push('Low pressure system detected')'',
     ''        break'',
     ''      case 'vibration':'',
     ''        if (data.value > 8) alerts.push('High vibration detected')'',
     ''        break'',
     ''    }'',
     ''    '',
     ''    return alerts'',
     ''  }'',
     ''  '',
     ''  private calculateTrend(value: number): string {'',
     ''    // Simplified trend calculation (in real scenario, you'd compare with historical data)'',
     ''    const randomTrend = Math.random()'',
     ''    if (randomTrend > 0.6) return 'increasing'' @ [CHR 0x27],
     ''    if (randomTrend < 0.4) return 'decreasing'' @ [CHR 0x27],
     ''    return 'stable'' @ [CHR 0x27],
     ''  }'',
     ''  '',
     ''  private categorizeValue(sensorType: string, value: number): string {'',
     ''    switch (sensorType) {'',
     ''      case 'temperature':'',
     ''        if (value > 30) return 'hot'' @ [CHR 0x27],
     ''        if (value < 15) return 'cold'' @ [CHR 0x27],
     ''        return 'normal'' @ [CHR 0x27],
     ''      case 'humidity':'',
     ''        if (value > 70) return 'high'' @ [CHR 0x27],
     ''        if (value < 30) return 'low'' @ [CHR 0x27],
     ''        return 'normal'' @ [CHR 0x27],
     ''      default:'',
     ''        return 'normal'' @ [CHR 0x27],
     ''    }'',
     ''  }'',
     ''}'',
     '''']\<close>

definition componentsIndexContent :: string where
  \<open>componentsIndexContent = join_lines
    [''export { RandomDataCollector } from './random-data-collector.js'' @ [CHR 0x27],
     ''export { DataProcessor } from './data-processor.js'' @ [CHR 0x27],
     '''']\<close>

definition generateExampleComponents :: "string \<Rightarrow> ProjectAnswers \<Rightarrow> filesystem \<Rightarrow> error + filesystem" where
  "generateExampleComponents projectPath' answers =
    (let componentsDir = path_join [projectPath', ''src'', ''components'']
     in await_all
          [ensureDir componentsDir,
           writeFile (path_join [componentsDir, ''random-data-collector.ts'']) collectorContent,
           writeFile (path_join [componentsDir, ''data-processor.ts'']) handlerContent,
           writeFile (path_join [componentsDir, ''index.ts'']) componentsIndexContent])"

subsection \<open>generateDockerFiles\<close>

definition dockerfileContent :: string where
  \<open>dockerfileContent = join_lines
    [''FROM node:18-alpine'',
     '''',
     ''WORKDIR /app'',
     '''',
     ''COPY package*.json ./'',
     ''RUN npm ci --only=production'',
     '''',
     ''COPY dist/ ./dist/'',
     ''COPY .env ./'',
     '''',
     ''EXPOSE 3000'',
     '''',
     ''CMD ["npm", "start"]'',
     '''']\<close>

definition dockerComposeYml :: "ProjectAnswers \<Rightarrow> string" where
  \<open>dockerComposeYml answers =
    (let dockerComposeContent = join_lines
          [''version: '3.8'' @ [CHR 0x27],
           '''',
           ''services:'',
           ''  app:'',
           ''    build: .'',
           ''    ports:'',
           ''      - "3000:3000"'',
           ''    environment:'',
           ''      - NODE_ENV=production'',
           ''    depends_on:'' @
             (if database answers = ''postgresql'' then join_lines
                ['''',
                 ''      - postgres'']
              else '''') @
             (if useRedis answers then join_lines
                ['''',
                 ''      - redis'']
              else ''''),
           ''    volumes:'',
           ''      - ./data:/app/data'',
           ''      - ./uploads:/app/uploads'',
           ''''];
         dockerComposeContent = (if database answers = ''postgresql''
           then dockerComposeContent @ join_lines
              ['''',
               ''  postgres:'',
               ''    image: postgres:15-alpine'',
               ''    environment:'',
               ''      POSTGRES_DB: '' @ projectName answers,
               ''      POSTGRES_USER: postgres'',
               ''      POSTGRES_PASSWORD: password'',
               ''    ports:'',
               ''      - "5432:5432"'',
               ''    volumes:'',
               ''      - postgres_data:/var/lib/postgresql/data'',
               '''']
           else dockerComposeContent);
         dockerComposeContent = (if useRedis answers
           then dockerComposeContent @ join_lines
              ['''',
               ''  redis:'',
               ''    image: redis:7-alpine'',
               ''    ports:'',
               ''      - "6379:6379"'',
               '''']
           else dockerComposeContent);
         dockerComposeContent = (if database answers = ''postgresql''
           then dockerComposeContent @ join_lines
              ['''',
               ''volumes:'',
               ''  postgres_data:'',
               '''']
           else dockerComposeContent)
     in dockerComposeContent)\<close>

definition generateDockerFiles :: "string \<Rightarrow> ProjectAnswers \<Rightarrow> filesystem \<Rightarrow> error + filesystem" where
  "generateDockerFiles projectPath' answers =
     await_all
       [writeFile (path_join [projectPath', ''Dockerfile'']) dockerfileContent,
        writeFile (path_join [projectPath', ''docker-compose.yml'']) (dockerComposeYml answers)]"

subsection \<open>generateReadme\<close>

definition readmeContent :: "ProjectAnswers \<Rightarrow> string" where
  \<open>readmeContent answers =
    (let dbLabel = (if database answers = ''postgresql''
           then ''PostgreSQL with production-ready configuration'' else ''SQLite for easy development'');
         storageLabel = (if storage answers = ''local''
           then join_lines
              [''Local file system storage ('' @ or_else (localStoragePath answers) ''./uploads'' @ '')'']
           else ''OVH Object Storage integration'');
         queueLabel = (if useRedis answers then ''Redis-powered background jobs'' else ''In-memory job processing'');
         exampleFeature = (if includeExamples answers
           then [CHR 0xE2, CHR 0x9C, CHR 0x85] @ '' **Example Components** - Random data collector and data processor included''
           else '''');
         dbConfig = (if database answers = ''postgresql'' then ''PostgreSQL'' else ''SQLite'');
         storageConfig = (if storage answers = ''local''
           then join_lines
              [''Local File System ('' @ or_else (localStoragePath answers) ''./uploads'' @ '')'']
           else ''OVH Object Storage'');
         queueConfig = (if useRedis answers then ''Redis (BullMQ)'' else ''In-memory'');
         dockerConfig = (if includeDocker answers then ''Included'' else ''Not included'')
     in join_lines
        [''# '' @ projectName answers,
         '''',
         ''Digital Twin application built with [digitaltwin-core](https://github.com/CePseudoBE/digital-twin-core).'',
         '''',
         ''## Features'',
         '''',
         [CHR 0xE2, CHR 0x9C, CHR 0x85] @ '' **Environment Validation** - Automatic validation of required configuration  '',
         [CHR 0xE2, CHR 0x9C, CHR 0x85] @ '' **Database Support** - '' @ dbLabel @ ''  '',
         [CHR 0xE2, CHR 0x9C, CHR 0x85] @ '' **Storage** - '' @ storageLabel @ ''  '',
         [CHR 0xE2, CHR 0x9C, CHR 0x85] @ '' **Queue Management** - '' @ queueLabel @ ''  '',
         exampleFeature,
         '''',
         ''## Configuration'',
         '''',
         ''- **Database**: '' @ dbConfig,
         ''- **Storage**: '' @ storageConfig,
         ''- **Queue**: '' @ queueConfig,
         ''- **Docker**: '' @ dockerConfig,
         '''',
         ''## Getting Started'',
         '''',
         ''1. **Install dependencies:**'',
         ''   ```bash'',
         ''   npm install'',
         ''   ```'',
         '''',
         ''2. **Configure environment:**'',
         ''   ```bash'',
         ''   cp .env .env.local'',
         ''   # Edit .env.local with your actual configuration'',
         ''   ```'',
         '''',
         (if database answers = ''postgresql'' then join_lines
            [''3. **Set up PostgreSQL:**'',
             ''   ```bash'',
             ''   # Make sure PostgreSQL is running and create database'',
             ''   createdb '' @ projectName answers,
             ''   ```'',
             '''']
          else '''') @
         (if useRedis answers then join_lines
            [(if database answers = ''postgresql'' then ''4'' else ''3'') @ ''. **Set up Redis:**'',
             ''   ```bash'',
             ''   # Make sure Redis is running'',
             ''   redis-server'',
             ''   ```'',
             '''']
          else ''''),
         '''',
         (if database answers = ''postgresql'' \<or> useRedis answers
          then join_lines
            [(if database answers = ''postgresql'' \<and> useRedis answers then ''5'' else ''4'') @ ''. **Start development server:**'']
          else ''3. **Start development server:**''),
         ''   ```bash'',
         ''   npm run dev'',
         ''   ```'',
         '''',
         ''## Available Scripts'',
         '''',
         ''- `npm run dev` - Start development server with hot reload'',
         ''- `npm run build` - Build TypeScript to JavaScript'',
         ''- `npm start` - Start production server'',
         ''- `node dt test` - Run dry-run validation (no database changes)'',
         ''- `node dt dev` - Start server via CLI'',
         '''',
         ''## Learn More'',
         '''',
         ''- [digitaltwin-core Documentation](https://github.com/CePseudoBE/digital-twin-core)'',
         ''- [Digital Twin Concepts](https://en.wikipedia.org/wiki/Digital_twin)'',
         ''- [Environment Configuration Best Practices](https://12factor.net/config)'',
         ''''])\<close>

definition generateReadme :: "string \<Rightarrow> ProjectAnswers \<Rightarrow> filesystem \<Rightarrow> error + filesystem" where
  "generateReadme projectPath' answers =
     writeFile (path_join [projectPath', ''README.md'']) (readmeContent answers)"

subsection \<open>generateProject\<close>

definition generateProject :: "ProjectAnswers \<Rightarrow> filesystem \<Rightarrow> error + filesystem" where
  "generateProject answers =
     await_all
       ([ensureDir (projectPath answers),
         generatePackageJson (projectPath answers) answers,
         generateAppFiles (projectPath answers) answers,
         generateConfigFiles (projectPath answers) answers] @
        (if includeExamples answers then [generateExampleComponents (projectPath answers) answers] else []) @
        (if includeDocker answers then [generateDockerFiles (projectPath answers) answers] else []) @
        [generateReadme (projectPath answers) answers])"

section \<open>The revision in part\_001\<close>

text \<open>
  \<^verbatim>\<open>generateEnvFile\<close>, \<^verbatim>\<open>generateConfigFiles\<close> and \<^verbatim>\<open>generateDockerFiles\<close> of
  \<^verbatim>\<open>part_001\<close> (and of \<^verbatim>\<open>part_002\<close>), and \<^verbatim>\<open>generateReadme\<close> of \<^verbatim>\<open>part_002\<close>, repeat
  those of \<^verbatim>\<open>project.ts\<close> character for character, up to the indentation of the
  TypeScript statements around the templates: the definitions above stand for them.
  What differs in \<^verbatim>\<open>part_001\<close> follows.
\<close>

subsection \<open>The version lookups\<close>

text \<open>
  \<^verbatim>\<open>fetch\<close> is the one place where the generator reads the world. The lookup either
  throws on the way (the request, or parsing the body), or reaches \<^verbatim>\<open>data.version\<close>:
  \<open>Version None\<close> when the body has no such property (\<^verbatim>\<open>undefined\<close>), otherwise the
  value as the template literal prints it. The \<^verbatim>\<open>console.warn\<close> of the fallback is
  left out.
\<close>

datatype fetch_outcome = Failed | Version "string option"

definition getLatestDigitalTwinCoreVersion :: "(string \<Rightarrow> fetch_outcome) \<Rightarrow> string option" where
  "getLatestDigitalTwinCoreVersion fetch =
     (case fetch ''https://registry.npmjs.org/digitaltwin-core/latest'' of
        Version v \<Rightarrow> v
      | Failed \<Rightarrow> Some ''0.3.3'')"

definition getLatestDigitalTwinCliVersion :: "(string \<Rightarrow> fetch_outcome) \<Rightarrow> string option" where
  "getLatestDigitalTwinCliVersion fetch =
     (case fetch ''https://registry.npmjs.org/digitaltwin-cli/latest'' of
        Version v \<Rightarrow> v
      | Failed \<Rightarrow> Some ''0.1.0'')"

text \<open>A value interpolated into a template literal: \<^verbatim>\<open>undefined\<close> prints as its name.\<close>

definition interpolate :: "string option \<Rightarrow> string" where
  "interpolate v = (case v of None \<Rightarrow> ''undefined'' | Some s \<Rightarrow> s)"

subsection \<open>generatePackageJson\<close>

definition packageJson_p1 :: "(string \<Rightarrow> fetch_outcome) \<Rightarrow> ProjectAnswers \<Rightarrow> PackageJsonConfig" where
  "packageJson_p1 fetch answers =
    (let digitalTwinVersion = getLatestDigitalTwinCoreVersion fetch;
         digitalTwinCliVersion = getLatestDigitalTwinCliVersion fetch;
         dependencies' =
           [(''digitaltwin-core'', ''^'' @ interpolate digitalTwinVersion),
            (''knex'', ''^3.0.0''),
            (''commander'', ''^12.0.0''),
            (''dotenv'', ''^17.2.1'')];
         devDependencies' =
           [(''@types/node'', ''^24.0.10''),
            (''typescript'', ''^5.0.0''),
            (''tsx'', ''^4.19.2''),
            (''digitaltwin-cli'', ''^'' @ interpolate digitalTwinCliVersion)];
         (dependencies', devDependencies') =
           (if database answers = ''postgresql''
            then (AList.update ''pg'' ''^8.11.0'' dependencies',
                  AList.update ''@types/pg'' ''^8.10.0'' devDependencies')
            else (AList.update ''better-sqlite3'' ''^12.2.0'' dependencies', devDependencies'));
         dependencies' =
           (if useRedis answers then AList.update ''ioredis'' ''^5.6.1'' dependencies'
            else dependencies');
         dependencies' =
           (if storage answers = ''ovh''
            then AList.update ''@aws-sdk/client-s3'' ''^3.842.0'' dependencies'
            else dependencies')
     in \<lparr>name = projectName answers,
         version = ''1.0.0'',
         description = ''Digital Twin application built with digitaltwin-core'',
         main = ''dist/index.js'',
         type = ''module'',
         scripts =
           [(''build'', ''tsc''),
            (''dev'', ''tsx watch src/index.ts''),
            (''start'', ''node dist/index.js'')],
         bin = [],
         dependencies = dependencies',
         devDependencies = devDependencies'\<rparr>)"

definition generatePackageJson_p1 ::
  "(string \<Rightarrow> fetch_outcome) \<Rightarrow> string \<Rightarrow> ProjectAnswers \<Rightarrow> filesystem \<Rightarrow> error + filesystem" where
  "generatePackageJson_p1 fetch projectPath' answers =
     writeJson (path_join [projectPath', ''package.json'']) (packageJson_p1 fetch answers)"

subsection \<open>generateIndexFile\<close>

definition generateIndexFile_p1 :: "ProjectAnswers \<Rightarrow> string" where
  \<open>generateIndexFile_p1 answers =
    (let dotenvImport = join_lines
          [''import 'dotenv/config'' @ [CHR 0x27]];
         storageClass = (if storage answers = ''local'' then ''LocalStorageService'' else ''OvhS3StorageService'');
         exampleImports = (if includeExamples answers
           then ''import { JSONPlaceholderCollector } from './components/index.js'' @ [CHR 0x27]
           else '''');
         dbConfigSection = (if database answers = ''postgresql''
           then join_lines
              ['''',
               ''    // PostgreSQL configuration'',
               ''    DB_HOST: Env.schema.string(),'',
               ''    DB_PORT: Env.schema.number({ optional: true }),'',
               ''    DB_USER: Env.schema.string(),'',
               ''    DB_PASSWORD: Env.schema.string(),'',
               ''    DB_NAME: Env.schema.string(),'']
           else join_lines
              ['''',
               ''    // SQLite configuration'',
               ''    DB_PATH: Env.schema.string({ optional: true }),'']);
         storageConfigSection = (if storage answers = ''local''
           then join_lines
              ['''',
               ''    // Local storage configuration'',
               ''    STORAGE_PATH: Env.schema.string({ optional: true }),'']
           else join_lines
              ['''',
               ''    // OVH Object Storage configuration'',
               ''    OVH_ACCESS_KEY: Env.schema.string(),'',
               ''    OVH_SECRET_KEY: Env.schema.string(),'',
               ''    OVH_ENDPOINT: Env.schema.string({ format: 'url' }),'',
               ''    OVH_REGION: Env.schema.string({ optional: true }),'',
               ''    OVH_BUCKET: Env.schema.string(),'']);
         redisConfigSection = (if useRedis answers
           then join_lines
              ['''',
               ''    // Redis configuration  '',
               ''    REDIS_HOST: Env.schema.string({ optional: true }),'',
               ''    REDIS_PORT: Env.schema.number({ optional: true }),'']
           else '''');
         storageInit = (if storage answers = ''local''
           then join_lines
              [''env.STORAGE_PATH || '' @ [CHR 0x27] @ or_else (localStoragePath answers) ''./uploads'' @ [CHR 0x27]]
           else join_lines
              [''{'',
               ''    accessKey: env.OVH_ACCESS_KEY,'',
               ''    secretKey: env.OVH_SECRET_KEY,'',
               ''    endpoint: env.OVH_ENDPOINT,'',
               ''    region: env.OVH_REGION || 'gra','',
               ''    bucket: env.OVH_BUCKET'',
               ''  }'']);
         dbConfig = (if database answers = ''postgresql''
           then join_lines
              [''{'',
               ''    client: 'pg','',
               ''    connection: {'',
               ''      host: env.DB_HOST,'',
               ''      port: env.DB_PORT || 5432,'',
               ''      user: env.DB_USER,'',
               ''      password: env.DB_PASSWORD,'',
               ''      database: env.DB_NAME'',
               ''    }'',
               ''  }'']
           else join_lines
              [''{'',
               ''    client: 'better-sqlite3','',
               ''    connection: {'',
               ''      filename: env.DB_PATH || './data/'' @ projectName answers @ ''.db'' @ [CHR 0x27],
               ''    },'',
               ''    useNullAsDefault: true'',
               ''  }'']);
         exampleComponents = (if includeExamples answers
           then join_lines
              [''collectors: [new JSONPlaceholderCollector()],'']
           else '''');
         storageDisplay = (if storage answers = ''local''
           then join_lines
              [''Local filesystem (${env.STORAGE_PATH || '' @ [CHR 0x27] @ or_else (localStoragePath answers) ''./uploads'' @ [CHR 0x27] @ ''})'']
           else ''OVH Object Storage'');
         queueDisplay = (if useRedis answers then ''Redis enabled'' else ''In-memory mode'');
         dbDisplay = (if database answers = ''postgresql'' then ''PostgreSQL'' else ''SQLite'')
     in join_lines
        [dotenvImport,
         ''import { DigitalTwinEngine, KnexDatabaseAdapter, Env } from 'digitaltwin-core'' @ [CHR 0x27],
         ''import { '' @ storageClass @ '' } from 'digitaltwin-core'' @ [CHR 0x27],
         exampleImports,
         '''',
         ''async function main(): Promise<void> {'',
         ''  console.log('Starting '' @ projectName answers @ '' Digital Twin...')'',
         ''  '',
         ''  // Validate environment variables'',
         ''  const env = Env.validate({'',
         ''    PORT: Env.schema.number({ optional: true }),'' @ dbConfigSection @ storageConfigSection @ redisConfigSection,
         ''  })'',
         ''  '',
         ''  console.log('Environment variables validated')'',
         ''  '',
         ''  // Initialize storage service first'',
         ''  const storage = new '' @ storageClass @ ''('' @ storageInit @ '')'',
         ''  '',
         ''  // Database configuration'',
         ''  const dbConfig = '' @ dbConfig,
         ''  '',
         ''  // Initialize database adapter'',
         ''  const database = new KnexDatabaseAdapter(dbConfig, storage)'',
         ''  '',
         ''  // Create Digital Twin Engine'',
         ''  const engine = new DigitalTwinEngine({'',
         ''    database,'',
         ''    storage,'',
         ''    redis: {'',
         ''      host: 'localhost','',
         ''      port: 6379'',
         ''    },'',
         ''    '' @ exampleComponents,
         ''  })'',
         ''  '',
         ''  console.log('Digital Twin Engine configured')'',
         ''  '',
         ''  // Start the engine'',
         ''  await engine.start()'',
         ''  const port = engine.getPort() || env.PORT || 3000'',
         ''  console.log(`Digital Twin Engine started on port ${port}`)'',
         ''  console.log(`Database: '' @ dbDisplay @ ''`)'',
         ''  console.log(`Storage: '' @ storageDisplay @ ''`)'',
         ''  console.log(`Queue: '' @ queueDisplay @ ''`)'',
         ''  '',
         ''  // Graceful shutdown'',
         ''  process.on('SIGINT', async () => {'',
         ''    console.log('' @ [CHR 0x27, CHR 0x5C] @ ''n'' @ [CHR 0xF0, CHR 0x9F, CHR 0x9B, CHR 0x91] @ '' Shutting down gracefully...')'',
         ''    await engine.stop()'',
         ''    process.exit(0)'',
         ''  })'',
         ''}'',
         '''',
         ''main().catch((error: Error) => {'',
         ''  console.error('' @ [CHR 0x27, CHR 0xE2, CHR 0x9D, CHR 0x8C] @ '' Failed to start Digital Twin Engine:', error.message)'',
         ''  process.exit(1)'',
         ''})'',
         ''''])\<close>

subsection \<open>generateTsConfig and generateAppFiles\<close>

definition generateTsConfig_p1 :: string where
  \<open>generateTsConfig_p1 = join_lines
    [''{'',
     ''  "compilerOptions": {'',
     ''    "target": "ES2022",'',
     ''    "module": "ESNext",'',
     ''    "moduleResolution": "node",'',
     ''    "allowSyntheticDefaultImports": true,'',
     ''    "esModuleInterop": true,'',
     ''    "allowJs": true,'',
     ''    "outDir": "./dist",'',
     ''    "rootDir": "./src",'',
     ''    "strict": true,'',
     ''    "declaration": true,'',
     ''    "skipLibCheck": true,'',
     ''    "forceConsistentCasingInFileNames": true,'',
     ''    "experimentalDecorators": true,'',
     ''    "useDefineForClassFields": false'',
     ''  },'',
     ''  "include": ['',
     ''    "src/**/*"'',
     ''  ],'',
     ''  "exclude": ['',
     ''    "node_modules",'',
     ''    "dist"'',
     ''  ]'',
     ''}'']\<close>

definition generateAppFiles_p1 :: "string \<Rightarrow> ProjectAnswers \<Rightarrow> filesystem \<Rightarrow> error + filesystem" where
  "generateAppFiles_p1 projectPath' answers =
    (let srcDir = path_join [projectPath', ''src''];
         indexContent = generateIndexFile_p1 answers;
         tsconfigContent = generateTsConfig_p1
     in await_all
          [ensureDir srcDir,
           writeFile (path_join [srcDir, ''index.ts'']) indexContent,
           writeFile (path_join [projectPath', ''tsconfig.json'']) tsconfigContent])"

subsection \<open>generateExampleComponents\<close>

definition collectorContent_p1 :: string where
  \<open>collectorContent_p1 = join_lines
    [''import { Collector } from 'digitaltwin-core'' @ [CHR 0x27],
     '''',
     ''interface Post {'',
     ''  id: number'',
     ''  userId: number'',
     ''  title: string'',
     ''  body: string'',
     ''}'',
     '''',
     ''interface User {'',
     ''  id: number'',
     ''  name: string'',
     ''  username: string'',
     ''  email: string'',
     ''  phone: string'',
     ''  website: string'',
     ''  address: {'',
     ''    street: string'',
     ''    suite: string'',
     ''    city: string'',
     ''    zipcode: string'',
     ''    geo: {'',
     ''      lat: string'',
     ''      lng: string'',
     ''    }'',
     ''  }'',
     ''  company: {'',
     ''    name: string'',
     ''    catchPhrase: string'',
     ''    bs: string'',
     ''  }'',
     ''}'',
     '''',
     ''interface CollectedData {'',
     ''  timestamp: Date'',
     ''  source: 'jsonplaceholder'' @ [CHR 0x27],
     ''  posts: Post[]'',
     ''  users: User[]'',
     ''  metadata: {'',
     ''    postsCount: number'',
     ''    usersCount: number'',
     ''    collectionDuration: number'',
     ''  }'',
     ''}'',
     '''',
     ''/**'',
     '' * JSONPlaceholder Data Collector - Fetches real data from JSONPlaceholder API'',
     '' * Demonstrates collecting data from external REST APIs'',
     '' */'',
     ''export class JSONPlaceholderCollector extends Collector {'',
     ''  private readonly baseUrl = 'https://jsonplaceholder.typicode.com'' @ [CHR 0x27],
     ''  '',
     ''  getConfiguration() {'',
     ''    return {'',
     ''      name: 'jsonplaceholder-collector','',
     ''      description: 'Collects posts and users data from JSONPlaceholder API','',
     ''      contentType: 'application/json','',
     ''      endpoint: 'api/jsonplaceholder','',
     ''      tags: ['api', 'external', 'demo']'',
     ''    }'',
     ''  }'',
     ''  '',
     ''  async collect(): Promise<Buffer> {'',
     ''    const startTime = Date.now()'',
     ''    '',
     ''    try {'',
     ''      console.log('Fetching data from JSONPlaceholder API...')'',
     ''      '',
     ''      // Fetch posts and users concurrently'',
     ''      const [postsResponse, usersResponse] = await Promise.all(['',
     ''        fetch(`${this.baseUrl}/posts?_limit=10`),'',
     ''        fetch(`${this.baseUrl}/users`)'',
     ''      ])'',
     ''      '',
     ''      if (!postsResponse.ok) {'',
     ''        throw new Error(`Posts API error: ${postsResponse.status}`)'',
     ''      }'',
     ''      '',
     ''      if (!usersResponse.ok) {'',
     ''        throw new Error(`Users API error: ${usersResponse.status}`)'',
     ''      }'',
     ''      '',
     ''      const posts: Post[] = await postsResponse.json()'',
     ''      const users: User[] = await usersResponse.json()'',
     ''      '',
     ''      const collectionDuration = Date.now() - startTime'',
     ''      '',
     ''      const data: CollectedData = {'',
     ''        timestamp: new Date(),'',
     ''        source: 'jsonplaceholder','',
     ''        posts,'',
     ''        users,'',
     ''        metadata: {'',
     ''          postsCount: posts.length,'',
     ''          usersCount: users.length,'',
     ''          collectionDuration'',
     ''        }'',
     ''      }'',
     ''      '',
     ''      console.log(`Collected ${posts.length} posts and ${users.length} users from JSONPlaceholder (${collectionDuration}ms)`)'',
     ''      return Buffer.from(JSON.stringify(data, null, 2))'',
     ''      '',
     ''    } catch (error) {'',
     ''      console.error('Error collecting data from JSONPlaceholder:', error)'',
     ''      '',
     ''      // Return error information as data'',
     ''      const errorData = {'',
     ''        timestamp: new Date(),'',
     ''        source: 'jsonplaceholder','',
     ''        error: true,'',
     ''        message: error instanceof Error ? error.message : 'Unknown error','',
     ''        metadata: {'',
     ''          collectionDuration: Date.now() - startTime'',
     ''        }'',
     ''      }'',
     ''      '',
     ''      return Buffer.from(JSON.stringify(errorData, null, 2))'',
     ''    }'',
     ''  }'',
     ''  '',
     ''  getSchedule(): string {'',
     ''    return '*/15 * * * * *' // Every 15 seconds'',
     ''  }'',
     ''}'',
     '''']\<close>

definition componentsIndexContent_p1 :: string where
  \<open>componentsIndexContent_p1 = join_lines
    [''export { JSONPlaceholderCollector } from './jsonplaceholder_collector.js'' @ [CHR 0x27],
     '''']\<close>

definition generateExampleComponents_p1 :: "string \<Rightarrow> ProjectAnswers \<Rightarrow> filesystem \<Rightarrow> error + filesystem" where
  "generateExampleComponents_p1 projectPath' answers =
    (let componentsDir = path_join [projectPath', ''src'', ''components'']
     in await_all
          [ensureDir componentsDir,
           writeFile (path_join [componentsDir, ''jsonplaceholder_collector.ts'']) collectorContent_p1,
           writeFile (path_join [componentsDir, ''index.ts'']) componentsIndexContent_p1])"

subsection \<open>generateReadme\<close>

definition readmeContent_p1 :: "ProjectAnswers \<Rightarrow> string" where
  \<open>readmeContent_p1 answers =
    (let dbLabel = (if database answers = ''postgresql''
           then ''PostgreSQL with production-ready configuration'' else ''SQLite for easy development'');
         storageLabel = (if storage answers = ''local''
           then join_lines
              [''Local file system storage ('' @ or_else (localStoragePath answers) ''./uploads'' @ '')'']
           else ''OVH Object Storage integration'');
         queueLabel = (if useRedis answers then ''Redis-powered background jobs'' else ''In-memory job processing'');
         exampleFeature = (if includeExamples answers
           then ''- **Example Components** - Random data collector and data processor included''
           else '''');
         dbConfig = (if database answers = ''postgresql'' then ''PostgreSQL'' else ''SQLite'');
         storageConfig = (if storage answers = ''local''
           then join_lines
              [''Local File System ('' @ or_else (localStoragePath answers) ''./uploads'' @ '')'']
           else ''OVH Object Storage'');
         queueConfig = (if useRedis answers then ''Redis (BullMQ)'' else ''In-memory'');
         dockerConfig = (if includeDocker answers then ''Included'' else ''Not included'')
     in join_lines
        [''# '' @ projectName answers,
         '''',
         ''Digital Twin application built with [digitaltwin-core](https://github.com/CePseudoBE/digital-twin-core).'',
         '''',
         ''## Features'',
         '''',
         ''- **Environment Validation** - Automatic validation of required configuration  '',
         ''- **Database Support** - '' @ dbLabel @ ''  '',
         ''- **Storage** - '' @ storageLabel @ ''  '',
         ''- **Queue Management** - '' @ queueLabel @ ''  '',
         exampleFeature,
         '''',
         ''## Configuration'',
         '''',
         ''- **Database**: '' @ dbConfig,
         ''- **Storage**: '' @ storageConfig,
         ''- **Queue**: '' @ queueConfig,
         ''- **Docker**: '' @ dockerConfig,
         '''',
         ''## Getting Started'',
         '''',
         ''1. **Install dependencies:**'',
         ''   ```bash'',
         ''   npm install'',
         ''   ```'',
         '''',
         ''2. **Configure environment:**'',
         ''   ```bash'',
         ''   cp .env .env.local'',
         ''   # Edit .env.local with your actual configuration'',
         ''   ```'',
         '''',
         (if database answers = ''postgresql'' then join_lines
            [''3. **Set up PostgreSQL:**'',
             ''   ```bash'',
             ''   # Make sure PostgreSQL is running and create database'',
             ''   createdb '' @ projectName answers,
             ''   ```'',
             '''']
          else '''') @
         (if useRedis answers then join_lines
            [(if database answers = ''postgresql'' then ''4'' else ''3'') @ ''. **Set up Redis:**'',
             ''   ```bash'',
             ''   # Make sure Redis is running'',
             ''   redis-server'',
             ''   ```'',
             '''']
          else ''''),
         '''',
         (if database answers = ''postgresql'' \<or> useRedis answers
          then join_lines
            [(if database answers = ''postgresql'' \<and> useRedis answers then ''5'' else ''4'') @ ''. **Start development server:**'']
          else ''3. **Start development server:**''),
         ''   ```bash'',
         ''   npm run dev'',
         ''   ```'',
         '''',
         ''## Available Scripts'',
         '''',
         ''- `npm run dev` - Start development server with hot reload'',
         ''- `npm run build` - Build TypeScript to JavaScript'',
         ''- `npm start` - Start production server'',
         ''- `node dt test` - Run dry-run validation (no database changes)'',
         ''- `node dt dev` - Start server via CLI'',
         '''',
         ''## Learn More'',
         '''',
         ''- [digitaltwin-core Documentation](https://github.com/CePseudoBE/digital-twin-core)'',
         ''- [Digital Twin Concepts](https://en.wikipedia.org/wiki/Digital_twin)'',
         ''- [Environment Configuration Best Practices](https://12factor.net/config)'',
         ''''])\<close>

definition generateReadme_p1 :: "string \<Rightarrow> ProjectAnswers \<Rightarrow> filesystem \<Rightarrow> error + filesystem" where
  "generateReadme_p1 projectPath' answers =
     writeFile (path_join [projectPath', ''README.md'']) (readmeContent_p1 answers)"

subsection \<open>generateDtCli\<close>

definition dtCliContent :: string where
  \<open>dtCliContent = join_lines
    [''#!/usr/bin/env node'',
     '''',
     ''import { spawn } from 'child_process'' @ [CHR 0x27],
     '''',
     ''// Call digitaltwin-cli with all arguments'',
     ''const args = process.argv.slice(2)'',
     ''const child = spawn('npx', ['digitaltwin-cli', ...args], { '',
     ''  stdio: 'inherit','',
     ''  cwd: process.cwd()'',
     ''})'',
     '''',
     ''child.on('exit', (code) => {'',
     ''  process.exit(code || 0)'',
     ''})'',
     '''']\<close>

definition generateDtCli :: "string \<Rightarrow> filesystem \<Rightarrow> error + filesystem" where
  "generateDtCli projectPath' = writeFile (path_join [projectPath', ''dt.js'']) dtCliContent"

subsection \<open>generateProject\<close>

definition generateProject_p1 ::
  "(string \<Rightarrow> fetch_outcome) \<Rightarrow> ProjectAnswers \<Rightarrow> filesystem \<Rightarrow> error + filesystem" where
  "generateProject_p1 fetch answers =
     await_all
       ([ensureDir (projectPath answers),
         generatePackageJson_p1 fetch (projectPath answers) answers,
         generateAppFiles_p1 (projectPath answers) answers,
         generateConfigFiles (projectPath answers) answers] @
        (if includeExamples answers then [generateExampleComponents_p1 (projectPath answers) answers] else []) @
        (if includeDocker answers then [generateDockerFiles (projectPath answers) answers] else []) @
        [generateReadme_p1 (projectPath answers) answers,
         generateDtCli (projectPath answers)])"

section \<open>Reading the generated text back\<close>

text \<open>\<^verbatim>\<open>text.split('\n')\<close>: the lines of a text.\<close>

fun split_lines :: "string \<Rightarrow> string list" where
  "split_lines [] = [[]]"
| "split_lines (c # cs) =
     (if c = CHR 10 then [] # split_lines cs
      else (case split_lines cs of [] \<Rightarrow> [[c]] | l # ls \<Rightarrow> (c # l) # ls))"

text \<open>
  A line of the environment template assigns a variable when it is not empty, is not a
  comment and contains \<^verbatim>\<open>=\<close>; the name is the text before the first \<^verbatim>\<open>=\<close>.
\<close>

definition env_assignment :: "string \<Rightarrow> string option" where
  "env_assignment l =
     (case l of
        [] \<Rightarrow> None
      | c # _ \<Rightarrow> if c = CHR ''#'' \<or> CHR ''='' \<notin> set l then None
                 else Some (takeWhile (\<lambda>c. c \<noteq> CHR ''='') l))"

definition env_template_names :: "string \<Rightarrow> string list" where
  "env_template_names txt = List.map_filter env_assignment (split_lines txt)"

text \<open>
  The validation schema of the entry point is the object literal passed to
  \<^verbatim>\<open>Env.validate\<close>: the lines after the one that opens the call, up to the line that
  closes it. A line of the schema declares a variable when, after its indentation, it is
  not a comment and contains \<^verbatim>\<open>:\<close>; the name is the text before the first \<^verbatim>\<open>:\<close>.
\<close>

definition unindent :: "string \<Rightarrow> string" where
  "unindent l = dropWhile (\<lambda>c. c = CHR '' '') l"

definition schema_block :: "string list \<Rightarrow> string list" where
  "schema_block ls =
     takeWhile (\<lambda>l. l \<noteq> ''  })'')
       (drop 1 (dropWhile (\<lambda>l. l \<noteq> ''  const env = Env.validate({'') ls))"

definition schema_entry :: "string \<Rightarrow> string option" where
  "schema_entry l =
     (let t = unindent l in
      if t = [] \<or> take 2 t = ''//'' \<or> CHR '':'' \<notin> set t then None
      else Some (takeWhile (\<lambda>c. c \<noteq> CHR '':'') t))"

definition schema_names :: "string \<Rightarrow> string list" where
  "schema_names txt = List.map_filter schema_entry (schema_block (split_lines txt))"

text \<open>
  The composition file is YAML in block style. The block under a key is made of the lines
  after the first line equal to the key, as long as they are blank or indented deeper than
  the key; a mapping key at indentation \<open>n\<close> is a line \<^verbatim>\<open>name:\<close> behind \<open>n\<close> spaces; a
  sequence item is a line \<^verbatim>\<open>- value\<close> behind its indentation.
\<close>

definition indent_of :: "string \<Rightarrow> nat" where
  "indent_of l = length (takeWhile (\<lambda>c. c = CHR '' '') l)"

definition block_under :: "string \<Rightarrow> string list \<Rightarrow> string list" where
  "block_under key ls =
     takeWhile (\<lambda>l. l = [] \<or> indent_of key < indent_of l)
       (drop 1 (dropWhile (\<lambda>l. l \<noteq> key) ls))"

definition mapping_key :: "nat \<Rightarrow> string \<Rightarrow> string option" where
  "mapping_key n l =
     (if indent_of l = n
      then (let t = drop n l in
            if dropWhile (\<lambda>c. c \<noteq> CHR '':'') t = '':''
            then Some (takeWhile (\<lambda>c. c \<noteq> CHR '':'') t) else None)
      else None)"

definition sequence_item :: "string \<Rightarrow> string option" where
  "sequence_item l =
     (let t = unindent l in if take 2 t = ''- '' then Some (drop 2 t) else None)"

definition compose_services :: "string \<Rightarrow> string list" where
  "compose_services txt =
     List.map_filter (mapping_key 2) (block_under ''services:'' (split_lines txt))"

definition compose_volumes :: "string \<Rightarrow> string list" where
  "compose_volumes txt =
     List.map_filter (mapping_key 2) (block_under ''volumes:'' (split_lines txt))"

definition compose_depends_on :: "string \<Rightarrow> string \<Rightarrow> string list" where
  "compose_depends_on service txt =
     List.map_filter sequence_item
       (block_under ''    depends_on:''
          (block_under (''  '' @ service @ '':'')
             (block_under ''services:'' (split_lines txt))))"

text \<open>
  A numbered step of the guide is a line of an ordered Markdown list: decimal digits,
  a full stop, a space, and the title of the step.
\<close>

definition is_digit :: "char \<Rightarrow> bool" where
  "is_digit c = (c \<in> set ''0123456789'')"

definition number_of :: "string \<Rightarrow> nat" where
  "number_of ds = foldl (\<lambda>n c. 10 * n + (of_char c - 48)) 0 ds"

definition step_line :: "string \<Rightarrow> (nat \<times> string) option" where
  "step_line l =
     (case l of
        [] \<Rightarrow> None
      | c # _ \<Rightarrow>
          if is_digit c
          then (let ds = takeWhile is_digit l; rest = dropWhile is_digit l in
                if take 2 rest = ''. '' then Some (number_of ds, drop 2 rest) else None)
          else None)"

definition readme_steps :: "string \<Rightarrow> (nat \<times> string) list" where
  "readme_steps txt = List.map_filter step_line (split_lines txt)"

text \<open>The modules a script imports: its lines that begin with \<^verbatim>\<open>import\<close>.\<close>

definition import_lines :: "string \<Rightarrow> string list" where
  "import_lines txt = filter (\<lambda>l. take 7 l = ''import '') (split_lines txt)"

text \<open>The steps of the guide that section 4.2 of the specification calls optional.\<close>

definition optional_step :: "nat \<times> string \<Rightarrow> bool" where
  "optional_step s = (snd s = ''**Set up PostgreSQL:**'' \<or> snd s = ''**Set up Redis:**'')"

text \<open>
  Two auxiliary notions for the proofs. The lines of \<open>xs @ ys\<close> are the lines of \<open>xs\<close>
  and the lines of \<open>ys\<close>, with the last line of \<open>xs\<close> and the first line of \<open>ys\<close> glued
  into one. \<open>elem_lines\<close> is \<^const>\<open>split_lines\<close> on one element of a template.
\<close>

fun glue :: "string list \<Rightarrow> string list \<Rightarrow> string list" where
  "glue [] ys = ys"
| "glue [x] [] = [x]"
| "glue [x] (y # ys) = (x @ y) # ys"
| "glue (x # x' # xs) ys = x # glue (x' # xs) ys"

definition elem_lines :: "string \<Rightarrow> string list" where
  "elem_lines = split_lines"

text \<open>The packages a manifest names, in either of its two dependency maps.\<close>

definition manifest_packages :: "PackageJsonConfig \<Rightarrow> string set" where
  "manifest_packages p = fst ` set (dependencies p) \<union> fst ` set (devDependencies p)"

text \<open>What a run has written when it completed; a run that was aborted reports an error.\<close>

definition written :: "error + filesystem \<Rightarrow> (string \<times> content) list" where
  "written r = (case r of Inl e \<Rightarrow> [] | Inr fs \<Rightarrow> files fs)"

text \<open>The scenario of section 8 of the specification, and a file system that refuses nothing.\<close>

definition demo :: ProjectAnswers where
  "demo = \<lparr>projectName = ''demo'', projectPath = ''demo'', database = ''sqlite'',
            storage = ''local'', localStoragePath = None, useRedis = False,
            includeDocker = False, includeExamples = False\<rparr>"

definition empty_fs :: filesystem where
  "empty_fs = \<lparr>rejects = (\<lambda>p. False), dirs = [], files = []\<rparr>"

section \<open>The forwarding script as a program\<close>

text \<open>
  The text that \<^verbatim>\<open>generateDtCli\<close> writes is a program for Node.js. To say what it does,
  the text is read by a lexer and a parser for the fragment of JavaScript it is written
  in, and the program that results is run by an interpreter of that fragment. A text
  outside the fragment has no reading (\<open>None\<close>).
\<close>

subsection \<open>Tokens\<close>

text \<open>
  Words (identifiers and numbers), single-quoted strings and single symbols; blanks and
  line comments separate tokens. A first line that begins with \<^verbatim>\<open>#!\<close> is skipped, as
  Node.js does.
\<close>

datatype token = Word string | Quoted string | Sym char

datatype lexmode = Code | InWord string | InQuote string | Slash | Comment

definition word_char :: "char \<Rightarrow> bool" where
  "word_char c =
     (c \<in> set ''abcdefghijklmnopqrstuvwxyzABCDEFGHIJKLMNOPQRSTUVWXYZ0123456789_$'')"

definition blank_char :: "char \<Rightarrow> bool" where
  "blank_char c = (c = CHR '' '' \<or> c = CHR 10 \<or> c = CHR 9 \<or> c = CHR 13)"

text \<open>The tokens and the mode that a character gives at the start of a token.\<close>

definition start :: "char \<Rightarrow> token list \<times> lexmode" where
  "start c =
     (if blank_char c then ([], Code)
      else if c = CHR 0x27 then ([], InQuote [])
      else if c = CHR ''/'' then ([], Slash)
      else if word_char c then ([], InWord [c])
      else ([Sym c], Code))"

fun lex :: "lexmode \<Rightarrow> string \<Rightarrow> token list" where
  "lex Code [] = []"
| "lex (InWord w) [] = [Word w]"
| "lex (InQuote q) [] = []"
| "lex Slash [] = [Sym CHR ''/'']"
| "lex Comment [] = []"
| "lex Code (c # cs) = (case start c of (ts, m) \<Rightarrow> ts @ lex m cs)"
| "lex (InWord w) (c # cs) =
     (if word_char c then lex (InWord (w @ [c])) cs
      else (case start c of (ts, m) \<Rightarrow> Word w # ts @ lex m cs))"
| "lex (InQuote q) (c # cs) =
     (if c = CHR 0x27 then Quoted q # lex Code cs else lex (InQuote (q @ [c])) cs)"
| "lex Slash (c # cs) =
     (if c = CHR ''/'' then lex Comment cs
      else (case start c of (ts, m) \<Rightarrow> Sym CHR ''/'' # ts @ lex m cs))"
| "lex Comment (c # cs) = (if c = CHR 10 then lex Code cs else lex Comment cs)"

definition tokens :: "string \<Rightarrow> token list" where
  "tokens txt = (if take 2 txt = ''#!'' then lex Comment txt else lex Code txt)"

subsection \<open>Statements\<close>

text \<open>
  The statements of the fragment:
  \<^verbatim>\<open>import { n, ... } from 'm'\<close>,
  \<^verbatim>\<open>const x = process.argv.slice(n)\<close>,
  \<^verbatim>\<open>const c = f('cmd', ['a', ...x], { key: value, ... })\<close>,
  \<^verbatim>\<open>c.on('event', (p) => { process.exit(e) })\<close> and
  \<^verbatim>\<open>process.exit(e)\<close>, where \<^verbatim>\<open>e\<close> is a number, a name, or \<^verbatim>\<open>a || b\<close> of two such.
\<close>

datatype item = Lit string | Spread string

datatype optval = OptStr string | OptCwd

datatype expr = Num nat | Var string | Or expr expr

datatype stmt =
    Import "string list" string
  | ConstSlice string nat
  | ConstCall string string string "item list" "(string \<times> optval) list"
  | On string string string expr
  | Exit expr

definition expect :: "token list \<Rightarrow> token list \<Rightarrow> token list option" where
  "expect pre ts = (if take (length pre) ts = pre then Some (drop (length pre) ts) else None)"

fun word :: "token list \<Rightarrow> (string \<times> token list) option" where
  "word (Word w # ts) = Some (w, ts)"
| "word _ = None"

fun quoted :: "token list \<Rightarrow> (string \<times> token list) option" where
  "quoted (Quoted q # ts) = Some (q, ts)"
| "quoted _ = None"

definition is_number :: "string \<Rightarrow> bool" where
  "is_number w = (w \<noteq> [] \<and> list_all is_digit w)"

definition number :: "token list \<Rightarrow> (nat \<times> token list) option" where
  "number ts =
     (case word ts of
        None \<Rightarrow> None
      | Some (w, r) \<Rightarrow> if is_number w then Some (number_of w, r) else None)"

definition more :: "'a \<Rightarrow> ('a list \<times> token list) option \<Rightarrow> ('a list \<times> token list) option" where
  "more x rest = map_option (\<lambda>(xs, r). (x # xs, r)) rest"

fun name_list :: "token list \<Rightarrow> (string list \<times> token list) option" where
  "name_list (Word n # Sym c # ts) =
     (if c = CHR ''}'' then Some ([n], ts)
      else if c = CHR '','' then more n (name_list ts)
      else None)"
| "name_list _ = None"

fun items :: "token list \<Rightarrow> (item list \<times> token list) option" where
  "items (Quoted q # Sym c # ts) =
     (if c = CHR '']'' then Some ([Lit q], ts)
      else if c = CHR '','' then more (Lit q) (items ts)
      else None)"
| "items (Sym d1 # Sym d2 # Sym d3 # Word x # Sym c # ts) =
     (if d1 = CHR ''.'' \<and> d2 = CHR ''.'' \<and> d3 = CHR ''.''
      then (if c = CHR '']'' then Some ([Spread x], ts)
            else if c = CHR '','' then more (Spread x) (items ts)
            else None)
      else None)"
| "items _ = None"

fun options :: "token list \<Rightarrow> ((string \<times> optval) list \<times> token list) option" where
  "options (Word k # Sym c # Quoted v # Sym e # ts) =
     (if c = CHR '':''
      then (if e = CHR ''}'' then Some ([(k, OptStr v)], ts)
            else if e = CHR '','' then more (k, OptStr v) (options ts)
            else None)
      else None)"
| "options (Word k # Sym c # Word p # Sym d # Word f # Sym l # Sym r # Sym e # ts) =
     (if c = CHR '':'' \<and> p = ''process'' \<and> d = CHR ''.'' \<and> f = ''cwd'' \<and>
         l = CHR ''('' \<and> r = CHR '')''
      then (if e = CHR ''}'' then Some ([(k, OptCwd)], ts)
            else if e = CHR '','' then more (k, OptCwd) (options ts)
            else None)
      else None)"
| "options _ = None"

definition atom :: "string \<Rightarrow> expr" where
  "atom w = (if is_number w then Num (number_of w) else Var w)"

fun expression :: "token list \<Rightarrow> (expr \<times> token list) option" where
  "expression (Word a # Sym b1 # Sym b2 # Word c # ts) =
     (if b1 = CHR ''|'' \<and> b2 = CHR ''|'' then Some (Or (atom a) (atom c), ts)
      else Some (atom a, Sym b1 # Sym b2 # Word c # ts))"
| "expression (Word a # ts) = Some (atom a, ts)"
| "expression _ = None"

definition parse_import :: "token list \<Rightarrow> (stmt \<times> token list) option" where
  "parse_import ts =
     do {
       r \<leftarrow> expect [Word ''import'', Sym CHR ''{''] ts;
       (ns, r) \<leftarrow> name_list r;
       r \<leftarrow> expect [Word ''from''] r;
       (m, r) \<leftarrow> quoted r;
       Some (Import ns m, r)
     }"

definition parse_const_slice :: "token list \<Rightarrow> (stmt \<times> token list) option" where
  "parse_const_slice ts =
     do {
       r \<leftarrow> expect [Word ''const''] ts;
       (x, r) \<leftarrow> word r;
       r \<leftarrow> expect [Sym CHR ''='', Word ''process'', Sym CHR ''.'', Word ''argv'',
                     Sym CHR ''.'', Word ''slice'', Sym CHR ''(''] r;
       (n, r) \<leftarrow> number r;
       r \<leftarrow> expect [Sym CHR '')''] r;
       Some (ConstSlice x n, r)
     }"

definition parse_const_call :: "token list \<Rightarrow> (stmt \<times> token list) option" where
  "parse_const_call ts =
     do {
       r \<leftarrow> expect [Word ''const''] ts;
       (x, r) \<leftarrow> word r;
       r \<leftarrow> expect [Sym CHR ''=''] r;
       (f, r) \<leftarrow> word r;
       r \<leftarrow> expect [Sym CHR ''(''] r;
       (cmd, r) \<leftarrow> quoted r;
       r \<leftarrow> expect [Sym CHR '','', Sym CHR ''[''] r;
       (args, r) \<leftarrow> items r;
       r \<leftarrow> expect [Sym CHR '','', Sym CHR ''{''] r;
       (opts, r) \<leftarrow> options r;
       r \<leftarrow> expect [Sym CHR '')''] r;
       Some (ConstCall x f cmd args opts, r)
     }"

definition parse_on :: "token list \<Rightarrow> (stmt \<times> token list) option" where
  "parse_on ts =
     do {
       (c, r) \<leftarrow> word ts;
       r \<leftarrow> expect [Sym CHR ''.'', Word ''on'', Sym CHR ''(''] r;
       (ev, r) \<leftarrow> quoted r;
       r \<leftarrow> expect [Sym CHR '','', Sym CHR ''(''] r;
       (p, r) \<leftarrow> word r;
       r \<leftarrow> expect [Sym CHR '')'', Sym CHR ''='', Sym CHR ''>'', Sym CHR ''{'',
                     Word ''process'', Sym CHR ''.'', Word ''exit'', Sym CHR ''(''] r;
       (e, r) \<leftarrow> expression r;
       r \<leftarrow> expect [Sym CHR '')'', Sym CHR ''}'', Sym CHR '')''] r;
       Some (On c ev p e, r)
     }"

definition parse_exit :: "token list \<Rightarrow> (stmt \<times> token list) option" where
  "parse_exit ts =
     do {
       r \<leftarrow> expect [Word ''process'', Sym CHR ''.'', Word ''exit'', Sym CHR ''(''] ts;
       (e, r) \<leftarrow> expression r;
       r \<leftarrow> expect [Sym CHR '')''] r;
       Some (Exit e, r)
     }"

fun first_of :: "'a option list \<Rightarrow> 'a option" where
  "first_of [] = None"
| "first_of (None # xs) = first_of xs"
| "first_of (Some x # xs) = Some x"

definition parse_stmt :: "token list \<Rightarrow> (stmt \<times> token list) option" where
  "parse_stmt ts =
     first_of [parse_import ts, parse_const_slice ts, parse_const_call ts, parse_exit ts,
               parse_on ts]"

text \<open>
  A program is a sequence of statements. Every statement takes at least one token, so
  the number of tokens is fuel enough.
\<close>

fun parse_program :: "nat \<Rightarrow> token list \<Rightarrow> stmt list option" where
  "parse_program n [] = Some []"
| "parse_program 0 (t # ts) = None"
| "parse_program (Suc n) (t # ts) =
     (case parse_stmt (t # ts) of
        None \<Rightarrow> None
      | Some (s, r) \<Rightarrow> map_option ((#) s) (parse_program n r))"

definition parse :: "string \<Rightarrow> stmt list option" where
  "parse txt = (let ts = tokens txt in parse_program (length ts) ts)"

subsection \<open>Running a program\<close>

text \<open>
  The world of a run is \<^verbatim>\<open>process.argv\<close> and what becomes of a child process that is
  started with a command and arguments: it cannot be started (Node.js then emits
  \<^verbatim>\<open>error\<close> on the child and no \<^verbatim>\<open>exit\<close>), or it ends and \<^verbatim>\<open>exit\<close> is emitted with its
  exit code, which is \<^verbatim>\<open>null\<close> when a signal ended it. A run reports the child processes
  the script asked for and the exit status of the script.
\<close>

datatype child_end = SpawnError | Exited "nat option"

datatype js_value = Null | Number nat

record js_state =
  imported :: "(string \<times> string) list"
  arrays :: "(string \<times> string list) list"
  processes :: "(string \<times> string \<times> string list \<times> (string \<times> optval) list) list"
  handlers :: "(string \<times> string \<times> string \<times> expr) list"

record script_run =
  spawned :: "(string \<times> string list \<times> (string \<times> optval) list) list"
  exit_status :: nat

definition initial :: js_state where
  "initial = \<lparr>imported = [], arrays = [], processes = [], handlers = []\<rparr>"

fun truthy :: "js_value \<Rightarrow> bool" where
  "truthy Null = False"
| "truthy (Number n) = (n \<noteq> 0)"

text \<open>\<^verbatim>\<open>process.exit(null)\<close> is \<^verbatim>\<open>process.exit()\<close>: status 0.\<close>

fun status_of :: "js_value \<Rightarrow> nat" where
  "status_of Null = 0"
| "status_of (Number n) = n"

text \<open>A name that is not bound raises a \<^verbatim>\<open>ReferenceError\<close>: \<open>None\<close>.\<close>

fun eval :: "(string \<times> js_value) list \<Rightarrow> expr \<Rightarrow> js_value option" where
  "eval env (Num n) = Some (Number n)"
| "eval env (Var x) = map_of env x"
| "eval env (Or a b) =
     (case eval env a of
        None \<Rightarrow> None
      | Some v \<Rightarrow> if truthy v then Some v else eval env b)"

fun spread :: "(string \<times> string list) list \<Rightarrow> item list \<Rightarrow> string list option" where
  "spread arrs [] = Some []"
| "spread arrs (Lit s # rest) = map_option ((#) s) (spread arrs rest)"
| "spread arrs (Spread x # rest) =
     (case map_of arrs x of
        None \<Rightarrow> None
      | Some xs \<Rightarrow> map_option ((@) xs) (spread arrs rest))"

text \<open>
  One statement at top level. The result is \<open>None\<close> where the fragment has no meaning for
  the statement (a call of anything but \<^verbatim>\<open>spawn\<close> of \<^verbatim>\<open>child_process\<close>), \<open>Inl n\<close> where
  the script ends at once with status \<open>n\<close> (\<^verbatim>\<open>process.exit\<close>, or status 1 for an exception
  that nothing catches), and the next state otherwise.
\<close>

definition exec :: "string list \<Rightarrow> stmt \<Rightarrow> js_state \<Rightarrow> (nat + js_state) option" where
  "exec argv s st =
     (case s of
        Import ns m \<Rightarrow> Some (Inr (st\<lparr>imported := map (\<lambda>n. (n, m)) ns @ imported st\<rparr>))
      | ConstSlice x n \<Rightarrow> Some (Inr (st\<lparr>arrays := (x, drop n argv) # arrays st\<rparr>))
      | ConstCall x f cmd args opts \<Rightarrow>
          (case map_of (imported st) f of
             None \<Rightarrow> Some (Inl 1)
           | Some m \<Rightarrow>
               if f = ''spawn'' \<and> m = ''child_process''
               then (case spread (arrays st) args of
                       None \<Rightarrow> Some (Inl 1)
                     | Some argv' \<Rightarrow>
                         Some (Inr (st\<lparr>processes := processes st @ [(x, cmd, argv', opts)]\<rparr>)))
               else None)
      | On c ev p e \<Rightarrow>
          (if c \<in> fst ` set (processes st)
           then Some (Inr (st\<lparr>handlers := handlers st @ [(c, ev, p, e)]\<rparr>))
           else if c \<in> fst ` set (arrays st) then None
           else Some (Inl 1))
      | Exit e \<Rightarrow>
          (case eval [] e of
             None \<Rightarrow> Some (Inl 1)
           | Some v \<Rightarrow> Some (Inl (status_of v))))"

fun run_sync :: "string list \<Rightarrow> stmt list \<Rightarrow> js_state \<Rightarrow> (script_run + js_state) option" where
  "run_sync argv [] st = Some (Inr st)"
| "run_sync argv (s # ss) st =
     (case exec argv s st of
        None \<Rightarrow> None
      | Some (Inl n) \<Rightarrow> Some (Inl \<lparr>spawned = map snd (processes st), exit_status = n\<rparr>)
      | Some (Inr st') \<Rightarrow> run_sync argv ss st')"

text \<open>
  After the last statement the script waits for its child. Without a child it ends with
  status 0. With one child: if the child cannot be started, \<^verbatim>\<open>error\<close> is emitted, and as
  the fragment has no listener for it the exception ends the script with status 1; if
  the child ends, the first listener for \<^verbatim>\<open>exit\<close> is called with the code and calls
  \<^verbatim>\<open>process.exit\<close>, and without a listener the script ends with status 0. Listeners for
  other events and several children are outside the fragment.
\<close>

definition settle :: "(string \<times> string list \<Rightarrow> child_end) \<Rightarrow> js_state \<Rightarrow> script_run option" where
  "settle world st =
     (if list_all (\<lambda>(c, ev, p, e). ev = ''exit'') (handlers st)
      then (case processes st of
              [] \<Rightarrow> Some \<lparr>spawned = [], exit_status = 0\<rparr>
            | [(c, cmd, args, opts)] \<Rightarrow>
                Some \<lparr>spawned = [(cmd, args, opts)],
                      exit_status =
                        (case world (cmd, args) of
                           SpawnError \<Rightarrow> 1
                         | Exited code \<Rightarrow>
                             (case filter (\<lambda>(c', ev, p, e). c' = c) (handlers st) of
                                [] \<Rightarrow> 0
                              | (c', ev, p, e) # _ \<Rightarrow>
                                  (case eval [(p, case code of None \<Rightarrow> Null | Some n \<Rightarrow> Number n)] e of
                                     None \<Rightarrow> 1
                                   | Some v \<Rightarrow> status_of v)))\<rparr>
            | _ \<Rightarrow> None)
      else None)"

definition run_script ::
  "string \<Rightarrow> string list \<Rightarrow> (string \<times> string list \<Rightarrow> child_end) \<Rightarrow> script_run option" where
  "run_script txt argv world =
     (case parse txt of
        None \<Rightarrow> None
      | Some prog \<Rightarrow>
          (case run_sync argv prog initial of
             None \<Rightarrow> None
           | Some (Inl r) \<Rightarrow> Some r
           | Some (Inr st) \<Rightarrow> settle world st))"

text \<open>
  The module that an \<^verbatim>\<open>import\<close> line names: the string after \<^verbatim>\<open>from\<close> that ends the
  line.
\<close>

definition module_of :: "string \<Rightarrow> string option" where
  "module_of l =
     (case rev (tokens l) of
        Quoted m # Word f # _ \<Rightarrow> if f = ''from'' then Some m else None
      | _ \<Rightarrow> None)"

definition imported_modules :: "string \<Rightarrow> string option list" where
  "imported_modules txt = map module_of (import_lines txt)"

section \<open>Facts about text\<close>

lemma single_line_simps:
  "single_line [] = True"
  "single_line (c # cs) = (c \<noteq> CHR 10 \<and> single_line cs)"
  "single_line (xs @ ys) = (single_line xs \<and> single_line ys)"
  by (simp_all add: single_line_def)

lemma single_line_if: "single_line x \<Longrightarrow> single_line y \<Longrightarrow> single_line (if c then x else y)"
  by simp

lemma single_line_join:
  "single_line (join_lines (l # l' # ls)) = False"
  "single_line (join_lines [l]) = single_line l"
  by (simp_all add: single_line_def)

lemma single_line_or_else:
  "(case v of None \<Rightarrow> True | Some p \<Rightarrow> single_line p) \<Longrightarrow> single_line d \<Longrightarrow> single_line (or_else v d)"
  by (auto simp: or_else_def single_line_def split: option.splits)

lemma valid_name_single_line: "list_all valid_name_char s \<Longrightarrow> single_line s"
  by (induction s) (auto simp: single_line_def valid_name_char_def)

lemma valid_answers_single_line:
  assumes "valid_answers a"
  shows "single_line (projectName a)" and "single_line (or_else (localStoragePath a) ''./uploads'')"
proof -
  show "single_line (projectName a)"
    using assms by (simp add: valid_answers_def valid_name_single_line)
  have "single_line ''./uploads''"
    by (simp add: single_line_def)
  then show "single_line (or_else (localStoragePath a) ''./uploads'')"
    using assms by (intro single_line_or_else) (simp_all add: valid_answers_def)
qed

lemma split_lines_single: "single_line l \<Longrightarrow> split_lines l = [l]"
  by (induction l) (auto simp: single_line_def)

lemma split_lines_not_Nil: "split_lines s \<noteq> []"
  by (induction s) (auto split: list.splits)

lemma split_lines_LF: "split_lines (xs @ CHR 10 # ys) = split_lines xs @ split_lines ys"
  by (induction xs) (auto split: list.splits simp: split_lines_not_Nil)

lemma split_lines_append: "split_lines (xs @ ys) = glue (split_lines xs) (split_lines ys)"
proof (induction xs)
  case Nil
  then show ?case using split_lines_not_Nil[of ys] by (cases "split_lines ys") auto
next
  case (Cons c xs)
  obtain l ls where xs: "split_lines xs = l # ls"
    using split_lines_not_Nil[of xs] by (cases "split_lines xs") auto
  obtain m ms where ys: "split_lines ys = m # ms"
    using split_lines_not_Nil[of ys] by (cases "split_lines ys") auto
  show ?case
  proof (cases "c = CHR 10")
    case True
    then show ?thesis using Cons xs ys by simp
  next
    case False
    then show ?thesis using Cons xs ys by (cases ls) auto
  qed
qed

lemma split_lines_join:
  "split_lines (join_lines (l # l' # ls)) = elem_lines l @ split_lines (join_lines (l' # ls))"
  "split_lines (join_lines [l]) = elem_lines l"
  by (simp_all add: split_lines_LF elem_lines_def)

lemma elem_lines_single: "single_line l \<Longrightarrow> elem_lines l = [l]"
  by (simp add: elem_lines_def split_lines_single)

lemma elem_lines_append: "elem_lines (xs @ ys) = glue (elem_lines xs) (elem_lines ys)"
  by (simp add: elem_lines_def split_lines_append)

lemma elem_lines_join:
  "elem_lines (join_lines (l # l' # ls)) = elem_lines l @ elem_lines (join_lines (l' # ls))"
  "elem_lines (join_lines [l]) = elem_lines l"
  by (simp_all add: split_lines_LF elem_lines_def)

text \<open>
  The rules that turn a template into the list of its lines; they are used with
  \<open>append_Cons\<close> and the equations of \<^const>\<open>split_lines\<close> and \<^const>\<open>join_lines\<close> switched
  off (\<open>text_dels\<close>), so that a literal stays in one piece.
\<close>

lemmas text_dels = append_Cons join_lines.simps split_lines.simps

lemmas text_simps = single_line_join split_lines_join split_lines_append
  elem_lines_single elem_lines_append elem_lines_join
  single_line_simps single_line_if append_Cons[where 'a = string]

text \<open>Scanning a list of lines, one conditional step per line.\<close>

lemma dropWhile_skip: "P x \<Longrightarrow> dropWhile P (x # xs) = dropWhile P xs"
  by simp

lemma dropWhile_stop: "\<not> P x \<Longrightarrow> dropWhile P (x # xs) = x # xs"
  by simp

lemma takeWhile_go: "P x \<Longrightarrow> takeWhile P (x # xs) = x # takeWhile P xs"
  by simp

lemma takeWhile_stop: "\<not> P x \<Longrightarrow> takeWhile P (x # xs) = []"
  by simp

lemma map_filter_None: "f x = None \<Longrightarrow> List.map_filter f (x # xs) = List.map_filter f xs"
  by (simp add: List.map_filter_simps)

lemma map_filter_Some:
  "f x \<noteq> None \<Longrightarrow> List.map_filter f (x # xs) = the (f x) # List.map_filter f xs"
  by (auto simp add: List.map_filter_simps)

lemma map_filter_Nil: "List.map_filter f [] = []"
  by (simp add: List.map_filter_simps)

lemmas scan_dels = takeWhile.simps(2) dropWhile.simps(2)

lemmas scan_simps = dropWhile_skip dropWhile_stop takeWhile_go takeWhile_stop
  map_filter_None map_filter_Some map_filter_Nil

section \<open>What the generated files declare\<close>

lemma env_template_names_generateEnvFile:
  assumes "single_line (projectName a)"
    and "single_line (or_else (localStoragePath a) ''./uploads'')"
  shows "env_template_names (generateEnvFile a) =
     [''PORT''] @
     (if database a = ''postgresql''
      then [''DB_HOST'', ''DB_PORT'', ''DB_USER'', ''DB_PASSWORD'', ''DB_NAME'']
      else [''DB_PATH'']) @
     (if storage a = ''local'' then [''STORAGE_PATH'']
      else [''OVH_ACCESS_KEY'', ''OVH_SECRET_KEY'', ''OVH_ENDPOINT'', ''OVH_REGION'', ''OVH_BUCKET'']) @
     (if useRedis a then [''REDIS_HOST'', ''REDIS_PORT''] else []) @
     [''NODE_ENV'', ''LOG_LEVEL'']"
  unfolding generateEnvFile_def Let_def env_template_names_def
  apply (cases "database a = ''postgresql''"; cases "storage a = ''local''"; cases "useRedis a")
  using assms
         apply (simp_all del: text_dels add: text_simps)
         apply (simp_all del: scan_dels add: env_assignment_def scan_simps)
  done

lemma schema_block_generateIndexFile:
  assumes "single_line (projectName a)"
    and "single_line (or_else (localStoragePath a) ''./uploads'')"
  shows "schema_block (split_lines (generateIndexFile a)) =
     [''    PORT: Env.schema.number({ optional: true }),''] @
     (if database a = ''postgresql''
      then [''    // PostgreSQL configuration'',
            ''    DB_HOST: Env.schema.string(),'',
            ''    DB_PORT: Env.schema.number({ optional: true }),'',
            ''    DB_USER: Env.schema.string(),'',
            ''    DB_PASSWORD: Env.schema.string(),'',
            ''    DB_NAME: Env.schema.string(),'']
      else [''    // SQLite configuration'',
            ''    DB_PATH: Env.schema.string({ optional: true }),'']) @
     (if storage a = ''local''
      then [''    // Local storage configuration'',
            ''    STORAGE_PATH: Env.schema.string({ optional: true }),'']
      else [''    // OVH Object Storage configuration'',
            ''    OVH_ACCESS_KEY: Env.schema.string(),'',
            ''    OVH_SECRET_KEY: Env.schema.string(),'',
            ''    OVH_ENDPOINT: Env.schema.string({ format: 'url' }),'',
            ''    OVH_REGION: Env.schema.string({ optional: true }),'',
            ''    OVH_BUCKET: Env.schema.string(),'']) @
     (if useRedis a
      then [''    // Redis configuration  '',
            ''    REDIS_HOST: Env.schema.string({ optional: true }),'',
            ''    REDIS_PORT: Env.schema.number({ optional: true }),'']
      else [])"
  unfolding generateIndexFile_def Let_def
  apply (cases "database a = ''postgresql''"; cases "storage a = ''local''"; cases "useRedis a")
  using assms
         apply (simp_all del: text_dels add: text_simps
            split del: if_split)
         apply (simp_all del: scan_dels add: schema_block_def scan_simps)
  done

lemma schema_names_generateIndexFile:
  assumes "single_line (projectName a)"
    and "single_line (or_else (localStoragePath a) ''./uploads'')"
  shows "schema_names (generateIndexFile a) =
     [''PORT''] @
     (if database a = ''postgresql''
      then [''DB_HOST'', ''DB_PORT'', ''DB_USER'', ''DB_PASSWORD'', ''DB_NAME'']
      else [''DB_PATH'']) @
     (if storage a = ''local'' then [''STORAGE_PATH'']
      else [''OVH_ACCESS_KEY'', ''OVH_SECRET_KEY'', ''OVH_ENDPOINT'', ''OVH_REGION'', ''OVH_BUCKET'']) @
     (if useRedis a then [''REDIS_HOST'', ''REDIS_PORT''] else [])"
  unfolding schema_names_def schema_block_generateIndexFile[OF assms]
  by (simp del: scan_dels add: schema_entry_def unindent_def scan_simps)

lemma compose_services_dockerComposeYml:
  assumes "single_line (projectName a)"
  shows "compose_services (dockerComposeYml a) =
           [''app''] @ (if database a = ''postgresql'' then [''postgres''] else []) @
           (if useRedis a then [''redis''] else [])"
  unfolding dockerComposeYml_def Let_def compose_services_def
  apply (cases "database a = ''postgresql''"; cases "useRedis a")
  using assms
     apply (simp_all del: text_dels add: text_simps)
     apply (simp_all del: scan_dels
        add: block_under_def indent_of_def mapping_key_def scan_simps)
  done

lemma compose_volumes_dockerComposeYml:
  assumes "single_line (projectName a)"
  shows "compose_volumes (dockerComposeYml a) =
           (if database a = ''postgresql'' then [''postgres_data''] else [])"
  unfolding dockerComposeYml_def Let_def compose_volumes_def
  apply (cases "database a = ''postgresql''"; cases "useRedis a")
  using assms
     apply (simp_all del: text_dels add: text_simps)
     apply (simp_all del: scan_dels
        add: block_under_def indent_of_def mapping_key_def scan_simps)
  done

lemma compose_depends_on_dockerComposeYml:
  assumes "single_line (projectName a)"
  shows "compose_depends_on ''app'' (dockerComposeYml a) =
           (if database a = ''postgresql'' then [''postgres''] else []) @
           (if useRedis a then [''redis''] else [])"
  unfolding dockerComposeYml_def Let_def compose_depends_on_def
  apply (cases "database a = ''postgresql''"; cases "useRedis a")
  using assms
     apply (simp_all del: text_dels add: text_simps)
     apply (simp_all del: scan_dels
        add: block_under_def indent_of_def sequence_item_def unindent_def scan_simps)
  done

lemma readme_steps_readmeContent:
  assumes "single_line (projectName a)"
    and "single_line (or_else (localStoragePath a) ''./uploads'')"
  shows "readme_steps (readmeContent a) =
     [(1, ''**Install dependencies:**''), (2, ''**Configure environment:**'')] @
     (if database a = ''postgresql'' then [(3, ''**Set up PostgreSQL:**'')] else []) @
     (if useRedis a
      then [(if database a = ''postgresql'' then 4 else 3, ''**Set up Redis:**'')] else []) @
     [(3 + (if database a = ''postgresql'' then 1 else 0) + (if useRedis a then 1 else 0),
       ''**Start development server:**'')]"
  unfolding readmeContent_def Let_def readme_steps_def
  apply (cases "database a = ''postgresql''"; cases "useRedis a")
  using assms
     apply (simp_all del: text_dels add: text_simps split del: if_split)
     apply (simp_all del: scan_dels add: step_line_def is_digit_def number_of_def scan_simps)
  done

lemma readme_steps_readmeContent_p1:
  assumes "single_line (projectName a)"
    and "single_line (or_else (localStoragePath a) ''./uploads'')"
  shows "readme_steps (readmeContent_p1 a) =
     [(1, ''**Install dependencies:**''), (2, ''**Configure environment:**'')] @
     (if database a = ''postgresql'' then [(3, ''**Set up PostgreSQL:**'')] else []) @
     (if useRedis a
      then [(if database a = ''postgresql'' then 4 else 3, ''**Set up Redis:**'')] else []) @
     [(3 + (if database a = ''postgresql'' then 1 else 0) + (if useRedis a then 1 else 0),
       ''**Start development server:**'')]"
  unfolding readmeContent_p1_def Let_def readme_steps_def
  apply (cases "database a = ''postgresql''"; cases "useRedis a")
  using assms
     apply (simp_all del: text_dels add: text_simps split del: if_split)
     apply (simp_all del: scan_dels add: step_line_def is_digit_def number_of_def scan_simps)
  done

section \<open>What a run writes\<close>

lemma generateProject_accepted:
  assumes "\<forall>p. \<not> rejects fs p"
  shows "generateProject a fs =
     Inr (fs\<lparr>dirs := dirs fs @ [projectPath a, projectPath a @ ''/src''] @
                 (if includeExamples a then [projectPath a @ ''/src/components''] else []),
              files := files fs @
                [(projectPath a @ ''/package.json'', Json (packageJson a)),
                 (projectPath a @ ''/src/index.ts'', Text (generateIndexFile a)),
                 (projectPath a @ ''/src/dt-cli.ts'', Text (generateCliFile a)),
                 (projectPath a @ ''/tsconfig.json'', Text generateTsConfig),
                 (projectPath a @ ''/.env'', Text (generateEnvFile a)),
                 (projectPath a @ ''/.gitignore'', Text gitignoreContent)] @
                (if includeExamples a
                 then [(projectPath a @ ''/src/components/random-data-collector.ts'',
                          Text collectorContent),
                       (projectPath a @ ''/src/components/data-processor.ts'',
                          Text handlerContent),
                       (projectPath a @ ''/src/components/index.ts'',
                          Text componentsIndexContent)]
                 else []) @
                (if includeDocker a
                 then [(projectPath a @ ''/Dockerfile'', Text dockerfileContent),
                       (projectPath a @ ''/docker-compose.yml'', Text (dockerComposeYml a))]
                 else []) @
                [(projectPath a @ ''/README.md'', Text (readmeContent a))]\<rparr>)"
  using assms
  by (simp add: generateProject_def generatePackageJson_def generateAppFiles_def
      generateConfigFiles_def generateExampleComponents_def generateDockerFiles_def
      generateReadme_def ensureDir_def writeFile_def writeJson_def Let_def)

lemma generateProject_p1_accepted:
  assumes "\<forall>p. \<not> rejects fs p"
  shows "generateProject_p1 fetch a fs =
     Inr (fs\<lparr>dirs := dirs fs @ [projectPath a, projectPath a @ ''/src''] @
                 (if includeExamples a then [projectPath a @ ''/src/components''] else []),
              files := files fs @
                [(projectPath a @ ''/package.json'', Json (packageJson_p1 fetch a)),
                 (projectPath a @ ''/src/index.ts'', Text (generateIndexFile_p1 a)),
                 (projectPath a @ ''/tsconfig.json'', Text generateTsConfig_p1),
                 (projectPath a @ ''/.env'', Text (generateEnvFile a)),
                 (projectPath a @ ''/.gitignore'', Text gitignoreContent)] @
                (if includeExamples a
                 then [(projectPath a @ ''/src/components/jsonplaceholder_collector.ts'',
                          Text collectorContent_p1),
                       (projectPath a @ ''/src/components/index.ts'',
                          Text componentsIndexContent_p1)]
                 else []) @
                (if includeDocker a
                 then [(projectPath a @ ''/Dockerfile'', Text dockerfileContent),
                       (projectPath a @ ''/docker-compose.yml'', Text (dockerComposeYml a))]
                 else []) @
                [(projectPath a @ ''/README.md'', Text (readmeContent_p1 a)),
                 (projectPath a @ ''/dt.js'', Text dtCliContent)]\<rparr>)"
  using assms
  by (simp add: generateProject_p1_def generatePackageJson_p1_def generateAppFiles_p1_def
      generateConfigFiles_def generateExampleComponents_p1_def generateDockerFiles_def
      generateReadme_p1_def generateDtCli_def ensureDir_def writeFile_def writeJson_def Let_def)

lemma empty_fs_accepts: "\<forall>p. \<not> rejects empty_fs p"
  by (simp add: empty_fs_def)

lemma valid_demo: "valid_answers demo"
  by (simp add: valid_answers_def demo_def valid_name_char_def)

lemma packageJson_packages:
  "manifest_packages (packageJson a) =
     {''digitaltwin-core'', ''knex'', ''commander'', ''@types/node'', ''typescript'',
      ''ts-node-dev''} \<union>
     (if database a = ''postgresql'' then {''pg'', ''@types/pg''} else {''sqlite3''}) \<union>
     (if useRedis a then {''ioredis''} else {}) \<union>
     (if storage a = ''ovh'' then {''@aws-sdk/client-s3''} else {})"
  by (auto simp add: manifest_packages_def packageJson_def Let_def)

lemma packageJson_p1_packages:
  "manifest_packages (packageJson_p1 fetch a) =
     {''digitaltwin-core'', ''knex'', ''commander'', ''dotenv'', ''@types/node'', ''typescript'',
      ''tsx'', ''digitaltwin-cli''} \<union>
     (if database a = ''postgresql'' then {''pg'', ''@types/pg''} else {''better-sqlite3''}) \<union>
     (if useRedis a then {''ioredis''} else {}) \<union>
     (if storage a = ''ovh'' then {''@aws-sdk/client-s3''} else {})"
  by (auto simp add: manifest_packages_def packageJson_p1_def Let_def)

section \<open>The environment template and the validation schema\<close>

text \<open>
  C10. For every valid options record the environment template ends with the fixed lines
  \<^verbatim>\<open>NODE_ENV=development\<close> and \<^verbatim>\<open>LOG_LEVEL=info\<close> (under their two comment lines),
  whatever the option flags are, and the validation schema of the generated entry point
  declares neither \<^verbatim>\<open>NODE_ENV\<close> nor \<^verbatim>\<open>LOG_LEVEL\<close>.
\<close>

theorem C10_env_template_tail:
  assumes "valid_answers a"
  shows "suffix
           (join_lines
              ['''',
               ''# Development Configuration'',
               ''NODE_ENV=development'',
               '''',
               ''# Logging'',
               ''LOG_LEVEL=info'',
               ''''])
           (generateEnvFile a) \<and>
         ''NODE_ENV'' \<notin> set (schema_names (generateIndexFile a)) \<and>
         ''LOG_LEVEL'' \<notin> set (schema_names (generateIndexFile a))"
proof -
  have "suffix
           (join_lines
              ['''',
               ''# Development Configuration'',
               ''NODE_ENV=development'',
               '''',
               ''# Logging'',
               ''LOG_LEVEL=info'',
               ''''])
           (generateEnvFile a)"
    unfolding generateEnvFile_def Let_def by (rule suffix_appendI) simp
  moreover have "''NODE_ENV'' \<notin> set (schema_names (generateIndexFile a))"
    and "''LOG_LEVEL'' \<notin> set (schema_names (generateIndexFile a))"
    unfolding schema_names_generateIndexFile[OF valid_answers_single_line[OF assms]] by simp_all
  ultimately show ?thesis by simp
qed

theorem C10_env_template_tail_witness:
  "valid_answers demo \<and>
   suffix
     (join_lines
        ['''',
         ''# Development Configuration'',
         ''NODE_ENV=development'',
         '''',
         ''# Logging'',
         ''LOG_LEVEL=info'',
         ''''])
     (generateEnvFile demo) \<and>
   ''NODE_ENV'' \<notin> set (schema_names (generateIndexFile demo)) \<and>
   ''LOG_LEVEL'' \<notin> set (schema_names (generateIndexFile demo))"
  using valid_demo C10_env_template_tail[OF valid_demo] by simp

text \<open>
  C1, as stated, asks for the same set of names on both sides. For the scenario of the
  specification the template assigns \<^verbatim>\<open>NODE_ENV\<close>, which the schema does not declare.
\<close>

theorem C1_counterexample:
  "valid_answers demo \<and>
   set (schema_names (generateIndexFile demo)) \<noteq> set (env_template_names (generateEnvFile demo))"
proof -
  note v = valid_demo
  have "''NODE_ENV'' \<in> set (env_template_names (generateEnvFile demo))"
    unfolding env_template_names_generateEnvFile[OF valid_answers_single_line[OF v]] by simp
  moreover have "''NODE_ENV'' \<notin> set (schema_names (generateIndexFile demo))"
    unfolding schema_names_generateIndexFile[OF valid_answers_single_line[OF v]] by simp
  ultimately show ?thesis using v by blast
qed

text \<open>
  C1, amended. For every valid options record, every name declared in the validation
  schema of the entry point is assigned in the environment template, and the template
  assigns exactly two further names, \<^verbatim>\<open>NODE_ENV\<close> and \<^verbatim>\<open>LOG_LEVEL\<close>, which the schema
  does not declare.
\<close>

theorem C1_env_names_amended:
  assumes "valid_answers a"
  shows "set (env_template_names (generateEnvFile a)) =
           set (schema_names (generateIndexFile a)) \<union> {''NODE_ENV'', ''LOG_LEVEL''} \<and>
         {''NODE_ENV'', ''LOG_LEVEL''} \<inter> set (schema_names (generateIndexFile a)) = {}"
  unfolding env_template_names_generateEnvFile[OF valid_answers_single_line[OF assms]]
    schema_names_generateIndexFile[OF valid_answers_single_line[OF assms]]
  by auto

theorem C1_env_names_amended_witness:
  "valid_answers demo \<and>
   set (env_template_names (generateEnvFile demo)) =
     set (schema_names (generateIndexFile demo)) \<union> {''NODE_ENV'', ''LOG_LEVEL''} \<and>
   {''NODE_ENV'', ''LOG_LEVEL''} \<inter> set (schema_names (generateIndexFile demo)) = {}"
  using valid_demo C1_env_names_amended[OF valid_demo] by simp

section \<open>The container composition\<close>

text \<open>
  C2. For every valid options record with \<open>includeDocker\<close>, the run writes
  \<^verbatim>\<open>docker-compose.yml\<close>; its services are exactly \<^verbatim>\<open>app\<close>, plus \<^verbatim>\<open>postgres\<close> when the
  database is PostgreSQL, plus \<^verbatim>\<open>redis\<close> when \<open>useRedis\<close>; the named volume
  \<^verbatim>\<open>postgres_data\<close> is declared exactly when the database is PostgreSQL; and with SQLite
  and without Redis the only service is \<^verbatim>\<open>app\<close> and its \<^verbatim>\<open>depends_on\<close> has no entry.
  The same file is written by the revision of \<^verbatim>\<open>part_001\<close>.
\<close>

theorem C2_compose_services:
  assumes "valid_answers a" and "includeDocker a" and "\<forall>p. \<not> rejects fs p"
  shows "(projectPath a @ ''/docker-compose.yml'', Text (dockerComposeYml a))
           \<in> set (written (generateProject a fs)) \<and>
         (projectPath a @ ''/docker-compose.yml'', Text (dockerComposeYml a))
           \<in> set (written (generateProject_p1 fetch a fs)) \<and>
         set (compose_services (dockerComposeYml a)) =
           {''app''} \<union> (if database a = ''postgresql'' then {''postgres''} else {}) \<union>
           (if useRedis a then {''redis''} else {}) \<and>
         compose_volumes (dockerComposeYml a) =
           (if database a = ''postgresql'' then [''postgres_data''] else []) \<and>
         (database a = ''sqlite'' \<and> \<not> useRedis a \<longrightarrow>
            compose_services (dockerComposeYml a) = [''app''] \<and>
            compose_depends_on ''app'' (dockerComposeYml a) = [])"
proof -
  note name = valid_answers_single_line(1)[OF assms(1)]
  have "(projectPath a @ ''/docker-compose.yml'', Text (dockerComposeYml a))
          \<in> set (written (generateProject a fs))"
    using assms(2) by (simp add: written_def generateProject_accepted[OF assms(3)])
  moreover have "(projectPath a @ ''/docker-compose.yml'', Text (dockerComposeYml a))
          \<in> set (written (generateProject_p1 fetch a fs))"
    using assms(2) by (simp add: written_def generateProject_p1_accepted[OF assms(3)])
  moreover have "set (compose_services (dockerComposeYml a)) =
           {''app''} \<union> (if database a = ''postgresql'' then {''postgres''} else {}) \<union>
           (if useRedis a then {''redis''} else {})"
    unfolding compose_services_dockerComposeYml[OF name] by auto
  moreover have "database a = ''sqlite'' \<and> \<not> useRedis a \<longrightarrow>
            compose_services (dockerComposeYml a) = [''app''] \<and>
            compose_depends_on ''app'' (dockerComposeYml a) = []"
    unfolding compose_services_dockerComposeYml[OF name] compose_depends_on_dockerComposeYml[OF name] by auto
  ultimately show ?thesis
    using compose_volumes_dockerComposeYml[OF name] by simp
qed

theorem C2_compose_services_witness:
  "valid_answers (demo\<lparr>includeDocker := True\<rparr>) \<and>
   includeDocker (demo\<lparr>includeDocker := True\<rparr>) \<and>
   (\<forall>p. \<not> rejects empty_fs p) \<and>
   (''demo/docker-compose.yml'', Text (dockerComposeYml (demo\<lparr>includeDocker := True\<rparr>)))
      \<in> set (written (generateProject (demo\<lparr>includeDocker := True\<rparr>) empty_fs)) \<and>
   compose_services (dockerComposeYml (demo\<lparr>includeDocker := True\<rparr>)) = [''app''] \<and>
   compose_volumes (dockerComposeYml (demo\<lparr>includeDocker := True\<rparr>)) = [] \<and>
   compose_depends_on ''app'' (dockerComposeYml (demo\<lparr>includeDocker := True\<rparr>)) = []"
proof -
  have v: "valid_answers (demo\<lparr>includeDocker := True\<rparr>)"
    using valid_demo by (simp add: valid_answers_def)
  have d: "includeDocker (demo\<lparr>includeDocker := True\<rparr>)"
    by simp
  show ?thesis
    using v C2_compose_services[OF v d empty_fs_accepts] empty_fs_accepts
    by (simp add: demo_def)
qed

section \<open>The numbered steps of the guide\<close>

text \<open>
  C3, as stated, puts the final step at 2 plus the number of optional steps. In the
  scenario of the specification (SQLite, no Redis) no optional step is present and the
  step that starts the server is step 3.
\<close>

theorem C3_counterexample:
  "snd (last (readme_steps (readmeContent demo))) = ''**Start development server:**'' \<and>
   fst (last (readme_steps (readmeContent demo))) \<noteq>
     2 + length (filter optional_step (readme_steps (readmeContent demo)))"
  unfolding readme_steps_readmeContent[OF valid_answers_single_line[OF valid_demo]]
  by (simp add: demo_def optional_step_def)

text \<open>
  C3, amended. For each of the four combinations of database and \<open>useRedis\<close>, the numbers
  of the steps of the guide are 1, 2, ... without gap or repetition, the last step is the
  one that starts the server, and its number is 3 plus the number of optional steps
  present: the database step is there only for PostgreSQL, the queue step only with
  \<open>useRedis\<close>. This holds for the guide of \<^verbatim>\<open>project.ts\<close> (which is also that of
  \<^verbatim>\<open>part_002\<close>) and for the guide of \<^verbatim>\<open>part_001\<close>.
\<close>

theorem C3_readme_steps_amended:
  assumes "valid_answers a"
  shows "list_all
           (\<lambda>steps.
              map fst steps = [1..<Suc (length steps)] \<and>
              snd (last steps) = ''**Start development server:**'' \<and>
              fst (last steps) = 3 + length (filter optional_step steps) \<and>
              ((3, ''**Set up PostgreSQL:**'') \<in> set steps \<longleftrightarrow> database a = ''postgresql'') \<and>
              (''**Set up Redis:**'' \<in> snd ` set steps \<longleftrightarrow> useRedis a) \<and>
              length (filter optional_step steps) =
                (if database a = ''postgresql'' then 1 else 0) + (if useRedis a then 1 else 0))
           [readme_steps (readmeContent a), readme_steps (readmeContent_p1 a)]"
  unfolding readme_steps_readmeContent[OF valid_answers_single_line[OF assms]]
    readme_steps_readmeContent_p1[OF valid_answers_single_line[OF assms]]
  by (cases "database a = ''postgresql''"; cases "useRedis a")
     (simp_all add: optional_step_def upt_rec)

theorem C3_readme_steps_amended_witness:
  "valid_answers demo \<and>
   map fst (readme_steps (readmeContent demo)) = [1, 2, 3] \<and>
   snd (last (readme_steps (readmeContent demo))) = ''**Start development server:**'' \<and>
   fst (last (readme_steps (readmeContent demo))) = 3 \<and>
   filter optional_step (readme_steps (readmeContent demo)) = []"
  using valid_demo C3_readme_steps_amended[OF valid_demo]
  unfolding readme_steps_readmeContent[OF valid_answers_single_line[OF valid_demo]]
  by (simp add: demo_def optional_step_def)

section \<open>The scenario of the specification\<close>

text \<open>
  C4, as stated, counts six artifacts. The run of the scenario writes seven: the command
  line wrapper \<^verbatim>\<open>src/dt-cli.ts\<close> is written by \<^verbatim>\<open>generateAppFiles\<close> without condition.
\<close>

theorem C4_counterexample:
  "length (written (generateProject demo empty_fs)) = 7 \<and>
   length (written (generateProject demo empty_fs)) \<noteq> 6 \<and>
   ''demo/src/dt-cli.ts'' \<in> fst ` set (written (generateProject demo empty_fs))"
  unfolding written_def generateProject_accepted[OF empty_fs_accepts]
  by (simp add: demo_def empty_fs_def)

text \<open>
  C4, amended. For the scenario the generator writes exactly seven artifacts: manifest,
  entry point, command line wrapper, compiler configuration, environment template, ignore
  file and guide. The manifest names the SQLite driver and not the PostgreSQL driver; the
  environment template assigns \<^verbatim>\<open>DB_PATH\<close>, which the schema of the entry point declares
  optional, and assigns none of \<^verbatim>\<open>DB_HOST\<close>, \<^verbatim>\<open>DB_USER\<close>, \<^verbatim>\<open>DB_PASSWORD\<close>.
\<close>

theorem C4_scenario_amended:
  "written (generateProject demo empty_fs) =
     [(''demo/package.json'', Json (packageJson demo)),
      (''demo/src/index.ts'', Text (generateIndexFile demo)),
      (''demo/src/dt-cli.ts'', Text (generateCliFile demo)),
      (''demo/tsconfig.json'', Text generateTsConfig),
      (''demo/.env'', Text (generateEnvFile demo)),
      (''demo/.gitignore'', Text gitignoreContent),
      (''demo/README.md'', Text (readmeContent demo))] \<and>
   ''sqlite3'' \<in> fst ` set (dependencies (packageJson demo)) \<and>
   ''pg'' \<notin> manifest_packages (packageJson demo) \<and>
   ''DB_PATH'' \<in> set (env_template_names (generateEnvFile demo)) \<and>
   ''    DB_PATH: Env.schema.string({ optional: true }),''
      \<in> set (schema_block (split_lines (generateIndexFile demo))) \<and>
   {''DB_HOST'', ''DB_USER'', ''DB_PASSWORD''} \<inter> set (env_template_names (generateEnvFile demo)) = {}"
proof -
  note lines = valid_answers_single_line[OF valid_demo]
  have "written (generateProject demo empty_fs) =
     [(''demo/package.json'', Json (packageJson demo)),
      (''demo/src/index.ts'', Text (generateIndexFile demo)),
      (''demo/src/dt-cli.ts'', Text (generateCliFile demo)),
      (''demo/tsconfig.json'', Text generateTsConfig),
      (''demo/.env'', Text (generateEnvFile demo)),
      (''demo/.gitignore'', Text gitignoreContent),
      (''demo/README.md'', Text (readmeContent demo))]"
    unfolding written_def generateProject_accepted[OF empty_fs_accepts]
  by (simp add: demo_def empty_fs_def)
  moreover have "''sqlite3'' \<in> fst ` set (dependencies (packageJson demo))"
    by (simp add: packageJson_def demo_def Let_def)
  moreover have "''pg'' \<notin> manifest_packages (packageJson demo)"
    unfolding packageJson_packages by (simp add: demo_def)
  moreover have "''DB_PATH'' \<in> set (env_template_names (generateEnvFile demo))"
    and "{''DB_HOST'', ''DB_USER'', ''DB_PASSWORD''} \<inter> set (env_template_names (generateEnvFile demo)) = {}"
    unfolding env_template_names_generateEnvFile[OF lines] by (simp_all add: demo_def)
  moreover have "''    DB_PATH: Env.schema.string({ optional: true }),''
      \<in> set (schema_block (split_lines (generateIndexFile demo)))"
    unfolding schema_block_generateIndexFile[OF lines] by (simp add: demo_def)
  ultimately show ?thesis by simp
qed

section \<open>The manifest\<close>

text \<open>
  C5. For every valid options record the dependency maps of the manifest name
  \<^verbatim>\<open>digitaltwin-core\<close>, \<^verbatim>\<open>knex\<close> and \<^verbatim>\<open>commander\<close>; they name \<^verbatim>\<open>pg\<close> and
  \<^verbatim>\<open>@types/pg\<close> exactly when the database is PostgreSQL, the SQLite driver exactly when it
  is SQLite, \<^verbatim>\<open>@aws-sdk/client-s3\<close> exactly when the storage is \<^verbatim>\<open>ovh\<close>, and \<^verbatim>\<open>ioredis\<close>
  exactly when \<open>useRedis\<close>. The SQLite driver is \<^verbatim>\<open>sqlite3\<close> in \<^verbatim>\<open>project.ts\<close> and
  \<^verbatim>\<open>better-sqlite3\<close> in \<^verbatim>\<open>part_001\<close>, whatever the version look-ups return.
\<close>

theorem C5_manifest_packages:
  assumes "valid_answers a"
  shows "list_all
           (\<lambda>(packages, sqlite_driver).
              {''digitaltwin-core'', ''knex'', ''commander''} \<subseteq> packages \<and>
              (''pg'' \<in> packages \<longleftrightarrow> database a = ''postgresql'') \<and>
              (''@types/pg'' \<in> packages \<longleftrightarrow> database a = ''postgresql'') \<and>
              (sqlite_driver \<in> packages \<longleftrightarrow> database a = ''sqlite'') \<and>
              (''@aws-sdk/client-s3'' \<in> packages \<longleftrightarrow> storage a = ''ovh'') \<and>
              (''ioredis'' \<in> packages \<longleftrightarrow> useRedis a))
           [(manifest_packages (packageJson a), ''sqlite3''),
            (manifest_packages (packageJson_p1 fetch a), ''better-sqlite3'')]"
proof -
  have "database a = ''sqlite'' \<or> database a = ''postgresql''"
    using assms by (simp add: valid_answers_def)
  then show ?thesis
    unfolding packageJson_packages packageJson_p1_packages by auto
qed

theorem C5_manifest_packages_witness:
  "valid_answers demo \<and>
   {''digitaltwin-core'', ''knex'', ''commander'', ''sqlite3''} \<subseteq> manifest_packages (packageJson demo) \<and>
   {''pg'', ''@types/pg'', ''@aws-sdk/client-s3'', ''ioredis''} \<inter> manifest_packages (packageJson demo) = {}"
  using valid_demo C5_manifest_packages[OF valid_demo, of "\<lambda>u. Failed"]
  by (simp add: demo_def)

section \<open>Values outside the enumerations\<close>

text \<open>
  C6, as stated, asks every selector to fail on a database or storage value outside its
  enumeration. The generator has no such check anywhere: with the database \<^verbatim>\<open>mysql\<close> the
  run completes and every selector takes its SQLite branch.
\<close>

theorem C6_counterexample:
  "\<not> valid_answers (demo\<lparr>database := ''mysql''\<rparr>) \<and>
   \<not> isl (generateProject (demo\<lparr>database := ''mysql''\<rparr>) empty_fs) \<and>
   length (written (generateProject (demo\<lparr>database := ''mysql''\<rparr>) empty_fs)) = 7 \<and>
   ''sqlite3'' \<in> manifest_packages (packageJson (demo\<lparr>database := ''mysql''\<rparr>)) \<and>
   ''DB_PATH'' \<in> set (env_template_names (generateEnvFile (demo\<lparr>database := ''mysql''\<rparr>)))"
proof -
  have lines: "single_line (projectName (demo\<lparr>database := ''mysql''\<rparr>))"
    "single_line (or_else (localStoragePath (demo\<lparr>database := ''mysql''\<rparr>)) ''./uploads'')"
    using valid_answers_single_line[OF valid_demo] by simp_all
  have "\<not> valid_answers (demo\<lparr>database := ''mysql''\<rparr>)"
    by (simp add: valid_answers_def)
  moreover have "\<not> isl (generateProject (demo\<lparr>database := ''mysql''\<rparr>) empty_fs)"
    and "length (written (generateProject (demo\<lparr>database := ''mysql''\<rparr>) empty_fs)) = 7"
    unfolding written_def generateProject_accepted[OF empty_fs_accepts]
    by (simp_all add: demo_def empty_fs_def)
  moreover have "''sqlite3'' \<in> manifest_packages (packageJson (demo\<lparr>database := ''mysql''\<rparr>))"
    unfolding packageJson_packages by simp
  moreover have "''DB_PATH'' \<in> set (env_template_names (generateEnvFile (demo\<lparr>database := ''mysql''\<rparr>)))"
    unfolding env_template_names_generateEnvFile[OF lines] by simp
  ultimately show ?thesis by simp
qed

text \<open>
  C6, amended. On an options record whose database or storage lies outside its
  enumeration no selector fails and the run reports no configuration error: every selector
  treats a database other than \<^verbatim>\<open>postgresql\<close> as \<^verbatim>\<open>sqlite\<close>; the selectors of text treat a
  storage other than \<^verbatim>\<open>local\<close> as \<^verbatim>\<open>ovh\<close>, and the selector of dependencies treats a
  storage other than \<^verbatim>\<open>ovh\<close> as \<^verbatim>\<open>local\<close>.
\<close>

theorem C6_out_of_range_amended:
  "(database a \<noteq> ''postgresql'' \<longrightarrow>
      packageJson a = packageJson (a\<lparr>database := ''sqlite''\<rparr>) \<and>
      generateIndexFile a = generateIndexFile (a\<lparr>database := ''sqlite''\<rparr>) \<and>
      generateCliFile a = generateCliFile (a\<lparr>database := ''sqlite''\<rparr>) \<and>
      generateEnvFile a = generateEnvFile (a\<lparr>database := ''sqlite''\<rparr>) \<and>
      dockerComposeYml a = dockerComposeYml (a\<lparr>database := ''sqlite''\<rparr>) \<and>
      readmeContent a = readmeContent (a\<lparr>database := ''sqlite''\<rparr>)) \<and>
   (storage a \<noteq> ''local'' \<longrightarrow>
      generateIndexFile a = generateIndexFile (a\<lparr>storage := ''ovh''\<rparr>) \<and>
      generateCliFile a = generateCliFile (a\<lparr>storage := ''ovh''\<rparr>) \<and>
      generateEnvFile a = generateEnvFile (a\<lparr>storage := ''ovh''\<rparr>) \<and>
      readmeContent a = readmeContent (a\<lparr>storage := ''ovh''\<rparr>)) \<and>
   (storage a \<noteq> ''ovh'' \<longrightarrow> packageJson a = packageJson (a\<lparr>storage := ''local''\<rparr>)) \<and>
   ((\<forall>p. \<not> rejects fs p) \<longrightarrow> \<not> isl (generateProject a fs))"
proof -
  have "packageJson a = packageJson (a\<lparr>database := ''sqlite''\<rparr>)"
    and "generateIndexFile a = generateIndexFile (a\<lparr>database := ''sqlite''\<rparr>)"
    and "generateCliFile a = generateCliFile (a\<lparr>database := ''sqlite''\<rparr>)"
    and "generateEnvFile a = generateEnvFile (a\<lparr>database := ''sqlite''\<rparr>)"
    and "dockerComposeYml a = dockerComposeYml (a\<lparr>database := ''sqlite''\<rparr>)"
    and "readmeContent a = readmeContent (a\<lparr>database := ''sqlite''\<rparr>)"
    if "database a \<noteq> ''postgresql''"
    using that
    by (simp_all add: packageJson_def generateIndexFile_def generateCliFile_def
        generateEnvFile_def dockerComposeYml_def readmeContent_def del: text_dels)
  moreover have "generateIndexFile a = generateIndexFile (a\<lparr>storage := ''ovh''\<rparr>)"
    and "generateCliFile a = generateCliFile (a\<lparr>storage := ''ovh''\<rparr>)"
    and "generateEnvFile a = generateEnvFile (a\<lparr>storage := ''ovh''\<rparr>)"
    and "readmeContent a = readmeContent (a\<lparr>storage := ''ovh''\<rparr>)"
    if "storage a \<noteq> ''local''"
    using that
    by (simp_all add: generateIndexFile_def generateCliFile_def generateEnvFile_def
        readmeContent_def del: text_dels)
  moreover have "packageJson a = packageJson (a\<lparr>storage := ''local''\<rparr>)"
    if "storage a \<noteq> ''ovh''"
    using that by (simp add: packageJson_def)
  moreover have "\<not> isl (generateProject a fs)" if "\<forall>p. \<not> rejects fs p"
    by (simp add: generateProject_accepted[OF that])
  ultimately show ?thesis by blast
qed

theorem C6_out_of_range_amended_witness:
  "database (demo\<lparr>database := ''mysql'', storage := ''s3''\<rparr>) \<noteq> ''postgresql'' \<and>
   storage (demo\<lparr>database := ''mysql'', storage := ''s3''\<rparr>) \<noteq> ''local'' \<and>
   storage (demo\<lparr>database := ''mysql'', storage := ''s3''\<rparr>) \<noteq> ''ovh'' \<and>
   (\<forall>p. \<not> rejects empty_fs p) \<and>
   generateEnvFile (demo\<lparr>database := ''mysql'', storage := ''s3''\<rparr>) =
     generateEnvFile (demo\<lparr>database := ''mysql'', storage := ''s3'', database := ''sqlite''\<rparr>) \<and>
   generateEnvFile (demo\<lparr>database := ''mysql'', storage := ''s3''\<rparr>) =
     generateEnvFile (demo\<lparr>database := ''mysql'', storage := ''s3'', storage := ''ovh''\<rparr>) \<and>
   packageJson (demo\<lparr>database := ''mysql'', storage := ''s3''\<rparr>) =
     packageJson (demo\<lparr>database := ''mysql'', storage := ''s3'', storage := ''local''\<rparr>) \<and>
   \<not> isl (generateProject (demo\<lparr>database := ''mysql'', storage := ''s3''\<rparr>) empty_fs)"
proof -
  have "database (demo\<lparr>database := ''mysql'', storage := ''s3''\<rparr>) \<noteq> ''postgresql''"
    and "storage (demo\<lparr>database := ''mysql'', storage := ''s3''\<rparr>) \<noteq> ''local''"
    and "storage (demo\<lparr>database := ''mysql'', storage := ''s3''\<rparr>) \<noteq> ''ovh''"
    by simp_all
  then show ?thesis
    using C6_out_of_range_amended[of "demo\<lparr>database := ''mysql'', storage := ''s3''\<rparr>" empty_fs]
      empty_fs_accepts
    by blast
qed

section \<open>The artifacts of a run\<close>

text \<open>
  C7. When the file system refuses nothing the run completes, and the relative paths it
  writes are given by \<open>includeExamples\<close> and \<open>includeDocker\<close> alone: the files of the
  example components are written exactly when \<open>includeExamples\<close>, the two container
  files exactly when \<open>includeDocker\<close>, and all others always, whatever the database, the
  storage and the storage path are. The first statement is about \<^verbatim>\<open>project.ts\<close>, the
  second about \<^verbatim>\<open>part_001\<close>.
\<close>

theorem C7_artifact_paths:
  assumes "\<forall>p. \<not> rejects fs p"
  shows "\<not> isl (generateProject a fs) \<and>
         map fst (written (generateProject a fs)) =
           map fst (files fs) @
           map (\<lambda>r. path_join [projectPath a, r])
             ([''package.json'', ''src/index.ts'', ''src/dt-cli.ts'', ''tsconfig.json'',
               ''.env'', ''.gitignore''] @
              (if includeExamples a
               then [''src/components/random-data-collector.ts'',
                     ''src/components/data-processor.ts'',
                     ''src/components/index.ts'']
               else []) @
              (if includeDocker a then [''Dockerfile'', ''docker-compose.yml''] else []) @
              [''README.md'']) \<and>
         \<not> isl (generateProject_p1 fetch a fs) \<and>
         map fst (written (generateProject_p1 fetch a fs)) =
           map fst (files fs) @
           map (\<lambda>r. path_join [projectPath a, r])
             ([''package.json'', ''src/index.ts'', ''tsconfig.json'', ''.env'', ''.gitignore''] @
              (if includeExamples a
               then [''src/components/jsonplaceholder_collector.ts'',
                     ''src/components/index.ts'']
               else []) @
              (if includeDocker a then [''Dockerfile'', ''docker-compose.yml''] else []) @
              [''README.md'', ''dt.js''])"
  by (simp add: written_def generateProject_accepted[OF assms]
      generateProject_p1_accepted[OF assms])

theorem C7_artifact_paths_witness:
  "(\<forall>p. \<not> rejects empty_fs p) \<and>
   \<not> isl (generateProject demo empty_fs) \<and>
   map fst (written (generateProject demo empty_fs)) =
     [''demo/package.json'', ''demo/src/index.ts'', ''demo/src/dt-cli.ts'',
      ''demo/tsconfig.json'', ''demo/.env'', ''demo/.gitignore'', ''demo/README.md''] \<and>
   map fst (written (generateProject_p1 (\<lambda>u. Failed) demo empty_fs)) =
     [''demo/package.json'', ''demo/src/index.ts'', ''demo/tsconfig.json'', ''demo/.env'',
      ''demo/.gitignore'', ''demo/README.md'', ''demo/dt.js'']"
  using C7_artifact_paths[OF empty_fs_accepts, of demo "\<lambda>u. Failed"] empty_fs_accepts
  by (simp add: demo_def empty_fs_def del: path_join.simps) (simp add: demo_def empty_fs_def)

section \<open>Determinism\<close>

text \<open>
  C8. Two runs on the same options record write the same artifacts with the same
  content, whatever the two file systems held before, provided neither refuses a path.
  For \<^verbatim>\<open>project.ts\<close> nothing else is read; for \<^verbatim>\<open>part_001\<close> the two version look-ups
  are the only reads of the world, and the statement is for runs in which both look-ups
  fail and the fixed fallback versions are taken.
\<close>

theorem C8_deterministic:
  assumes "\<forall>p. \<not> rejects fs1 p" and "\<forall>p. \<not> rejects fs2 p"
    and "fetch1 ''https://registry.npmjs.org/digitaltwin-core/latest'' = Failed"
    and "fetch1 ''https://registry.npmjs.org/digitaltwin-cli/latest'' = Failed"
    and "fetch2 ''https://registry.npmjs.org/digitaltwin-core/latest'' = Failed"
    and "fetch2 ''https://registry.npmjs.org/digitaltwin-cli/latest'' = Failed"
  shows "\<not> isl (generateProject a fs1) \<and> \<not> isl (generateProject a fs2) \<and>
         drop (length (files fs1)) (written (generateProject a fs1)) =
         drop (length (files fs2)) (written (generateProject a fs2)) \<and>
         \<not> isl (generateProject_p1 fetch1 a fs1) \<and> \<not> isl (generateProject_p1 fetch2 a fs2) \<and>
         drop (length (files fs1)) (written (generateProject_p1 fetch1 a fs1)) =
         drop (length (files fs2)) (written (generateProject_p1 fetch2 a fs2))"
proof -
  have "packageJson_p1 fetch1 a = packageJson_p1 fetch2 a"
    using assms(3-6)
    by (simp add: packageJson_p1_def getLatestDigitalTwinCoreVersion_def
        getLatestDigitalTwinCliVersion_def)
  then show ?thesis
    by (simp add: written_def generateProject_accepted[OF assms(1)]
        generateProject_accepted[OF assms(2)] generateProject_p1_accepted[OF assms(1)]
        generateProject_p1_accepted[OF assms(2)])
qed

theorem C8_deterministic_witness:
  "(\<forall>p. \<not> rejects empty_fs p) \<and>
   (\<forall>p. \<not> rejects (empty_fs\<lparr>files := [(''old'', Text ''x'')]\<rparr>) p) \<and>
   (\<lambda>u. Failed) ''https://registry.npmjs.org/digitaltwin-core/latest'' = Failed \<and>
   (\<lambda>u. Failed) ''https://registry.npmjs.org/digitaltwin-cli/latest'' = Failed \<and>
   written (generateProject demo empty_fs) =
     drop 1 (written (generateProject demo (empty_fs\<lparr>files := [(''old'', Text ''x'')]\<rparr>))) \<and>
   written (generateProject_p1 (\<lambda>u. Failed) demo empty_fs) =
     drop 1 (written (generateProject_p1 (\<lambda>u. Failed) demo
        (empty_fs\<lparr>files := [(''old'', Text ''x'')]\<rparr>)))"
proof -
  have r: "\<forall>p. \<not> rejects (empty_fs\<lparr>files := [(''old'', Text ''x'')]\<rparr>) p"
    by (simp add: empty_fs_def)
  show ?thesis
    using C8_deterministic[OF empty_fs_accepts r, of "\<lambda>u. Failed" "\<lambda>u. Failed" demo]
      empty_fs_accepts r
    by (simp add: empty_fs_def)
qed

section \<open>The command line wrapper\<close>

lemma import_lines_generateCliFile:
  assumes "single_line (projectName a)"
    and "single_line (or_else (localStoragePath a) ''./uploads'')"
  shows "import_lines (generateCliFile a) =
     [''import { DigitalTwinEngine, KnexDatabaseAdapter } from 'digitaltwin-core'' @ [CHR 0x27],
      ''import { '' @
        (if storage a = ''local'' then ''LocalStorageService'' else ''OvhS3StorageService'') @
        '' } from 'digitaltwin-core'' @ [CHR 0x27],
      ''import { program } from 'commander'' @ [CHR 0x27],
      ''import { fileURLToPath } from 'url'' @ [CHR 0x27],
      ''import path from 'path'' @ [CHR 0x27],
      ''import fs from 'fs'' @ [CHR 0x27]]"
  unfolding generateCliFile_def Let_def import_lines_def
  apply (cases "database a = ''postgresql''"; cases "storage a = ''local''")
  using assms
     apply (simp_all del: text_dels add: text_simps)
  done

lemma imported_modules_generateCliFile:
  assumes "single_line (projectName a)"
    and "single_line (or_else (localStoragePath a) ''./uploads'')"
  shows "imported_modules (generateCliFile a) =
     [Some ''digitaltwin-core'', Some ''digitaltwin-core'', Some ''commander'',
      Some ''url'', Some ''path'', Some ''fs'']"
  unfolding imported_modules_def import_lines_generateCliFile[OF assms]
  by (simp add: module_of_def tokens_def start_def blank_char_def word_char_def)

text \<open>The reading of the forwarding script, and its run in any world.\<close>

lemma parse_dtCliContent:
  "parse dtCliContent =
     Some [Import [''spawn''] ''child_process'',
           ConstSlice ''args'' 2,
           ConstCall ''child'' ''spawn'' ''npx'' [Lit ''digitaltwin-cli'', Spread ''args'']
             [(''stdio'', OptStr ''inherit''), (''cwd'', OptCwd)],
           On ''child'' ''exit'' ''code'' (Or (Var ''code'') (Num 0))]"
  by code_simp

lemma imported_modules_dtCliContent:
  "imported_modules dtCliContent = [Some ''child_process'']"
  by code_simp

lemma run_script_dtCliContent:
  "run_script dtCliContent argv world =
     Some \<lparr>spawned = [(''npx'', ''digitaltwin-cli'' # drop 2 argv,
                        [(''stdio'', OptStr ''inherit''), (''cwd'', OptCwd)])],
           exit_status =
             (case world (''npx'', ''digitaltwin-cli'' # drop 2 argv) of
                SpawnError \<Rightarrow> 1
              | Exited None \<Rightarrow> 0
              | Exited (Some c) \<Rightarrow> c)\<rparr>"
  unfolding run_script_def parse_dtCliContent
  by (simp add: exec_def initial_def settle_def split: child_end.split option.split)

text \<open>
  C9, as stated, is about the wrapper of every revision. The wrapper that \<^verbatim>\<open>project.ts\<close>
  (and \<^verbatim>\<open>part_002\<close>) writes is \<^verbatim>\<open>src/dt-cli.ts\<close>, the text of \<^verbatim>\<open>generateCliFile\<close>: its
  import statements name the framework, \<^verbatim>\<open>commander\<close>, \<^verbatim>\<open>url\<close>, \<^verbatim>\<open>path\<close> and \<^verbatim>\<open>fs\<close>,
  and not \<^verbatim>\<open>child_process\<close>, the module a script needs to start another process, and
  its text changes with the storage option.
\<close>

theorem C9_counterexample:
  "(''demo/src/dt-cli.ts'', Text (generateCliFile demo))
      \<in> set (written (generateProject demo empty_fs)) \<and>
   import_lines (generateCliFile demo) =
     [''import { DigitalTwinEngine, KnexDatabaseAdapter } from 'digitaltwin-core'' @ [CHR 0x27],
      ''import { LocalStorageService } from 'digitaltwin-core'' @ [CHR 0x27],
      ''import { program } from 'commander'' @ [CHR 0x27],
      ''import { fileURLToPath } from 'url'' @ [CHR 0x27],
      ''import path from 'path'' @ [CHR 0x27],
      ''import fs from 'fs'' @ [CHR 0x27]] \<and>
   imported_modules (generateCliFile demo) =
     [Some ''digitaltwin-core'', Some ''digitaltwin-core'', Some ''commander'',
      Some ''url'', Some ''path'', Some ''fs''] \<and>
   generateCliFile (demo\<lparr>storage := ''ovh''\<rparr>) \<noteq> generateCliFile demo"
proof -
  note lines = valid_answers_single_line[OF valid_demo]
  have lines': "single_line (projectName (demo\<lparr>storage := ''ovh''\<rparr>))"
    "single_line (or_else (localStoragePath (demo\<lparr>storage := ''ovh''\<rparr>)) ''./uploads'')"
    using lines by simp_all
  have "(''demo/src/dt-cli.ts'', Text (generateCliFile demo))
      \<in> set (written (generateProject demo empty_fs))"
    unfolding written_def generateProject_accepted[OF empty_fs_accepts]
    by (simp add: demo_def empty_fs_def)
  moreover have "import_lines (generateCliFile (demo\<lparr>storage := ''ovh''\<rparr>)) \<noteq>
      import_lines (generateCliFile demo)"
    unfolding import_lines_generateCliFile[OF lines] import_lines_generateCliFile[OF lines']
    by (simp add: demo_def)
  then have "generateCliFile (demo\<lparr>storage := ''ovh''\<rparr>) \<noteq> generateCliFile demo"
    by auto
  moreover have "storage demo = ''local''"
    by (simp add: demo_def)
  ultimately show ?thesis
    unfolding imported_modules_generateCliFile[OF lines] import_lines_generateCliFile[OF lines]
    by simp
qed

text \<open>
  C9, amended. In the revision of \<^verbatim>\<open>part_001\<close> the wrapper is \<^verbatim>\<open>dt.js\<close>, and it is the
  same text for every options record: a script that imports \<^verbatim>\<open>child_process\<close> only and,
  run with any arguments, asks for one child process, \<^verbatim>\<open>npx digitaltwin-cli\<close> followed by
  all of its own arguments, with inherited standard streams and in its own working
  directory. It ends with the exit code of that child unchanged, with 0 when the child
  reports no code (a signal ended it), and with 1 when the child cannot be started. In
  \<^verbatim>\<open>project.ts\<close> the wrapper is the program of \<^verbatim>\<open>generateCliFile\<close>, whose import
  statements, for a valid options record, name the framework, \<^verbatim>\<open>commander\<close>, \<^verbatim>\<open>url\<close>,
  \<^verbatim>\<open>path\<close> and \<^verbatim>\<open>fs\<close> and no other module.
\<close>

theorem C9_wrapper_amended:
  "((\<forall>p. \<not> rejects fs p) \<longrightarrow>
      (projectPath a @ ''/dt.js'', Text dtCliContent)
         \<in> set (written (generateProject_p1 fetch a fs))) \<and>
   imported_modules dtCliContent = [Some ''child_process''] \<and>
   run_script dtCliContent argv world =
     Some \<lparr>spawned = [(''npx'', ''digitaltwin-cli'' # drop 2 argv,
                        [(''stdio'', OptStr ''inherit''), (''cwd'', OptCwd)])],
           exit_status =
             (case world (''npx'', ''digitaltwin-cli'' # drop 2 argv) of
                SpawnError \<Rightarrow> 1
              | Exited None \<Rightarrow> 0
              | Exited (Some c) \<Rightarrow> c)\<rparr> \<and>
   (valid_answers a \<longrightarrow>
      imported_modules (generateCliFile a) =
        [Some ''digitaltwin-core'', Some ''digitaltwin-core'', Some ''commander'',
         Some ''url'', Some ''path'', Some ''fs''])"
proof -
  have "(projectPath a @ ''/dt.js'', Text dtCliContent)
         \<in> set (written (generateProject_p1 fetch a fs))" if "\<forall>p. \<not> rejects fs p"
    by (simp add: written_def generateProject_p1_accepted[OF that])
  moreover have "imported_modules (generateCliFile a) =
        [Some ''digitaltwin-core'', Some ''digitaltwin-core'', Some ''commander'',
         Some ''url'', Some ''path'', Some ''fs'']" if "valid_answers a"
    by (rule imported_modules_generateCliFile[OF valid_answers_single_line[OF that]])
  ultimately show ?thesis
    using imported_modules_dtCliContent run_script_dtCliContent[of argv world] by blast
qed

theorem C9_wrapper_amended_witness:
  "(\<forall>p. \<not> rejects empty_fs p) \<and> valid_answers demo \<and>
   (''demo/dt.js'', Text dtCliContent)
      \<in> set (written (generateProject_p1 (\<lambda>u. Failed) demo empty_fs)) \<and>
   run_script dtCliContent [''node'', ''dt.js'', ''test'', ''--verbose''] (\<lambda>u. Exited (Some 3)) =
     Some \<lparr>spawned = [(''npx'', [''digitaltwin-cli'', ''test'', ''--verbose''],
                        [(''stdio'', OptStr ''inherit''), (''cwd'', OptCwd)])],
           exit_status = 3\<rparr> \<and>
   run_script dtCliContent [''node'', ''dt.js''] (\<lambda>u. SpawnError) =
     Some \<lparr>spawned = [(''npx'', [''digitaltwin-cli''],
                        [(''stdio'', OptStr ''inherit''), (''cwd'', OptCwd)])],
           exit_status = 1\<rparr> \<and>
   ''child_process'' \<notin> set (map the (imported_modules (generateCliFile demo)))"
  using C9_wrapper_amended[of empty_fs demo "\<lambda>u. Failed"
      "[''node'', ''dt.js'', ''test'', ''--verbose'']" "\<lambda>u. Exited (Some 3)"]
    C9_wrapper_amended[of empty_fs demo "\<lambda>u. Failed" "[''node'', ''dt.js'']" "\<lambda>u. SpawnError"]
    empty_fs_accepts valid_demo
  by (simp add: demo_def)
end
